theory Spec2Isabelle
  imports Complex_Main
begin

section \<open>Numbers, points and matrices\<close>

text \<open>
  The library computes in C++ \<^verbatim>\<open>double\<close>. The embedding reads every \<^verbatim>\<open>double\<close> as a
  real number and every arithmetic operation as the exact one, so rounding, infinities,
  NaN and the sign of zero are outside the model. \<^verbatim>\<open>uint\<close> values that only count
  control points are natural numbers; where the source subtracts from one and the
  wrap-around is reachable it is written out.

  \<^verbatim>\<open>Eigen::Vector2d\<close> is a pair, \<^verbatim>\<open>Eigen::MatrixX2d\<close> (the control points) a list of
  pairs, one per row, and \<^verbatim>\<open>Eigen::MatrixXd\<close> a list of rows. Eigen's products require
  matching dimensions; the operations below are only ever applied to such arguments.
\<close>

type_synonym Point = "real \<times> real"
type_synonym PointVector = "Point list"
type_synonym VectorXd = "real list"
type_synonym Coeffs = "real list list"

definition mat :: "nat \<Rightarrow> nat \<Rightarrow> (nat \<Rightarrow> nat \<Rightarrow> real) \<Rightarrow> Coeffs" where
  "mat r c f = map (\<lambda>i. map (f i) [0..<c]) [0..<r]"

definition rows :: "Coeffs \<Rightarrow> nat" where
  "rows A = length A"

definition cols :: "Coeffs \<Rightarrow> nat" where
  "cols A = (case A of [] \<Rightarrow> 0 | r # _ \<Rightarrow> length r)"

definition mat_mul :: "Coeffs \<Rightarrow> Coeffs \<Rightarrow> Coeffs" where
  "mat_mul A B = mat (rows A) (cols B) (\<lambda>i j. \<Sum>k\<leftarrow>[0..<rows B]. A ! i ! k * B ! k ! j)"

definition mul_points :: "Coeffs \<Rightarrow> PointVector \<Rightarrow> PointVector" where
  "mul_points A P = map (\<lambda>i. (\<Sum>k\<leftarrow>[0..<length P]. A ! i ! k * fst (P ! k),
                              \<Sum>k\<leftarrow>[0..<length P]. A ! i ! k * snd (P ! k))) [0..<rows A]"

definition transpose_mat :: "Coeffs \<Rightarrow> Coeffs" where
  "transpose_mat A = mat (cols A) (rows A) (\<lambda>i j. A ! j ! i)"

definition identity :: "nat \<Rightarrow> Coeffs" where
  "identity n = mat n n (\<lambda>i j. if i = j then 1 else 0)"

fun mat_pow :: "Coeffs \<Rightarrow> nat \<Rightarrow> Coeffs" where
  "mat_pow A 0 = identity (rows A)"
| "mat_pow A (Suc k) = mat_mul (mat_pow A k) A"

text \<open>Eigen's arithmetic on \<^verbatim>\<open>Vector2d\<close>, and \<^verbatim>\<open>norm()\<close>, the Euclidean length.\<close>

definition padd :: "Point \<Rightarrow> Point \<Rightarrow> Point" where
  "padd p q = (fst p + fst q, snd p + snd q)"

definition psub :: "Point \<Rightarrow> Point \<Rightarrow> Point" where
  "psub p q = (fst p - fst q, snd p - snd q)"

definition pscale :: "real \<Rightarrow> Point \<Rightarrow> Point" where
  "pscale a p = (a * fst p, a * snd p)"

definition pdiv :: "Point \<Rightarrow> real \<Rightarrow> Point" where
  "pdiv p a = (fst p / a, snd p / a)"

definition norm_pt :: "Point \<Rightarrow> real" where
  "norm_pt p = sqrt ((fst p)\<^sup>2 + (snd p)\<^sup>2)"

text \<open>\<^verbatim>\<open>inline double factorial(uint k) { return std::tgamma(k + 1); }\<close>\<close>

definition factorial :: "nat \<Rightarrow> real" where
  "factorial k = real (fact k)"

text \<open>
  \<^verbatim>\<open>binomial(n, k) = factorial(n) / (factorial(k) * factorial(n - k))\<close>. Every call in the
  source has \<open>k \<le> n\<close>, so the unsigned \<open>n - k\<close> does not wrap.
\<close>

definition binomial_coeff :: "nat \<Rightarrow> nat \<Rightarrow> real" where
  "binomial_coeff n k = factorial n / (factorial k * factorial (n - k))"

text \<open>
  Eigen's \<^verbatim>\<open>MatrixBase::exp()\<close> is the matrix exponential. The source applies it only to
  strictly lower triangular square matrices; for such an \<open>n \<times> n\<close> matrix the \<open>n\<close>-th power
  vanishes and the exponential is the sum of the first \<open>n\<close> terms of its series.
\<close>

definition matrix_exp :: "Coeffs \<Rightarrow> Coeffs" where
  "matrix_exp A = mat (rows A) (rows A)
     (\<lambda>i j. \<Sum>k\<leftarrow>[0..<rows A]. mat_pow A k ! i ! j / factorial k)"

section \<open>Coefficient matrices\<close>

text \<open>
  The static maps \<^verbatim>\<open>bernstein_coeffs_\<close>, \<^verbatim>\<open>elevate_order_coeffs_\<close>, ... memoise a matrix per
  \<open>n\<close>; an entry is computed once from \<open>n\<close> alone and never changed, so the model computes
  the matrix at each use.

  \<^verbatim>\<open>bernsteinCoeffs(n)\<close>: \<^verbatim>\<open>Zero(n, n)\<close>, \<^verbatim>\<open>diagonal(-1) = -LinSpaced(n - 1, 1, n - 1)\<close>,
  \<^verbatim>\<open>exp()\<close>, then row \<open>k\<close> times \<^verbatim>\<open>binomial(n - 1, k)\<close>. It is called with \<open>n \<ge> 1\<close>.
\<close>

definition subdiagonal :: "nat \<Rightarrow> Coeffs" where
  "subdiagonal n = mat n n (\<lambda>i j. if i = Suc j then - real i else 0)"

definition bernsteinCoeffs :: "nat \<Rightarrow> Coeffs" where
  "bernsteinCoeffs n = mat n n (\<lambda>k j. binomial_coeff (n - 1) k * matrix_exp (subdiagonal n) ! k ! j)"

text \<open>
  \<^verbatim>\<open>elevateOrderCoeffs(n)\<close>: \<^verbatim>\<open>Zero(n + 1, n)\<close>, \<^verbatim>\<open>diagonal() = 1 - LinSpaced(n, 0, n - 1) / n\<close>,
  \<^verbatim>\<open>diagonal(-1) = LinSpaced(n, 1, n) / n\<close>.
\<close>

definition elevateOrderCoeffs :: "nat \<Rightarrow> Coeffs" where
  "elevateOrderCoeffs n = mat (n + 1) n
     (\<lambda>i j. if i = j then 1 - real j / real n
            else if i = Suc j then real (Suc j) / real n else 0)"

section \<open>The curve\<close>

text \<open>
  A curve holds \<^verbatim>\<open>N_\<close> and \<^verbatim>\<open>control_points_\<close>. Its private caches (derivative, roots,
  bounding box, polyline, projection polynomial) hold values computed from the control
  points alone and are cleared by \<^verbatim>\<open>resetCache\<close> at every mutation; the model computes
  these values at each use and keeps no cache. What remains of \<^verbatim>\<open>resetCache\<close> is
  \<^verbatim>\<open>N_ = control_points_.rows()\<close>.
\<close>

record Curve =
  N :: nat
  control_points :: PointVector

definition Curve :: "PointVector \<Rightarrow> Curve" where
  "Curve points = \<lparr>N = length points, control_points = points\<rparr>"

definition resetCache :: "Curve \<Rightarrow> Curve" where
  "resetCache c = c\<lparr>N := length (control_points c)\<rparr>"

text \<open>\<^verbatim>\<open>uint Curve::order() const { return N_ - 1; }\<close>, in 32-bit unsigned arithmetic.\<close>

definition order :: "Curve \<Rightarrow> nat" where
  "order c = (if N c = 0 then 2 ^ 32 - 1 else N c - 1)"

text \<open>
  \<^verbatim>\<open>valueAt(t)\<close>: the origin when \<^verbatim>\<open>N_ == 0\<close>, else the row vector of powers
  \<open>t\<^sup>0, \<dots>, t\<^bsup>N-1\<^esup>\<close> times \<^verbatim>\<open>bernsteinCoeffs(N_)\<close> times the control points, the
  \<open>1 \<times> 2\<close> result read as a point. The function has no \<^verbatim>\<open>throw\<close>.
\<close>

definition power_basis :: "real \<Rightarrow> nat \<Rightarrow> VectorXd" where
  "power_basis t n = map (\<lambda>k. t ^ k) [0..<n]"

definition valueAt :: "Curve \<Rightarrow> real \<Rightarrow> Point" where
  "valueAt c t =
     (if N c = 0 then (0, 0)
      else hd (mul_points (mat_mul [power_basis t (N c)] (bernsteinCoeffs (N c))) (control_points c)))"

text \<open>\<^verbatim>\<open>elevateOrder()\<close>: the product with \<^verbatim>\<open>elevateOrderCoeffs(N_)\<close>, then \<^verbatim>\<open>resetCache()\<close>.\<close>

definition elevateOrder :: "Curve \<Rightarrow> Curve" where
  "elevateOrder c =
     resetCache (c\<lparr>control_points := mul_points (elevateOrderCoeffs (N c)) (control_points c)\<rparr>)"


section \<open>Exceptions and mutators\<close>

text \<open>
  The source throws \<^verbatim>\<open>std::logic_error\<close> and \<^verbatim>\<open>std::invalid_argument\<close>; the second is
  derived from the first in the C++ standard library, so a handler for
  \<^verbatim>\<open>std::logic_error\<close> catches both.
\<close>

datatype error = logic_error string | invalid_argument string

fun is_logic_error :: "error \<Rightarrow> bool" where
  "is_logic_error (logic_error _) = True"
| "is_logic_error (invalid_argument _) = True"

text \<open>
  Eigen's \<^verbatim>\<open>inverse()\<close> is not part of the repository; the functions that call it take
  it as the parameter \<open>matrix_inverse\<close>.

  \<^verbatim>\<open>lowerOrderCoeffs(n)\<close>: with \<open>E = elevateOrderCoeffs(n - 1)\<close>, the matrix
  \<open>(E\<^sup>T E)\<^sup>-\<^sup>1 E\<^sup>T\<close>.
\<close>

definition lowerOrderCoeffs :: "(Coeffs \<Rightarrow> Coeffs) \<Rightarrow> nat \<Rightarrow> Coeffs" where
  "lowerOrderCoeffs matrix_inverse n =
     mat_mul (matrix_inverse (mat_mul (transpose_mat (elevateOrderCoeffs (n - 1))) (elevateOrderCoeffs (n - 1))))
       (transpose_mat (elevateOrderCoeffs (n - 1)))"

text \<open>
  A mutator returns what the caller observes, \<open>Inl\<close> an exception or \<open>Inr ()\<close>, together
  with the curve as it is after the call.
\<close>

definition lowerOrder :: "(Coeffs \<Rightarrow> Coeffs) \<Rightarrow> Curve \<Rightarrow> (error + unit) \<times> Curve" where
  "lowerOrder matrix_inverse c =
     (if N c = 2 then (Inl (logic_error ''Cannot further reduce the order of curve.''), c)
      else (Inr (), resetCache
              (c\<lparr>control_points := mul_points (lowerOrderCoeffs matrix_inverse (N c)) (control_points c)\<rparr>)))"

text \<open>
  \<^verbatim>\<open>manipulateCurvature(t, point)\<close>. \<^verbatim>\<open>std::pow(t, N_ - 1)\<close> has the exponent 2 or 3
  here. A division by zero gives an infinity or NaN in the source and 0 in the model;
  no statement below depends on such a quotient.
\<close>

definition manipulateCurvature :: "Curve \<Rightarrow> real \<Rightarrow> Point \<Rightarrow> (error + unit) \<times> Curve" where
  "manipulateCurvature c t point =
     (if N c < 3 \<or> N c > 4
      then (Inl (logic_error ''Only quadratic and cubic curves can be manipulated''), c)
      else
        let P = control_points c;
            n = N c;
            r = \<bar>(t ^ (n - 1) + (1 - t) ^ (n - 1) - 1) / (t ^ (n - 1) + (1 - t) ^ (n - 1))\<bar>;
            u = (1 - t) ^ (n - 1) / (t ^ (n - 1) + (1 - t) ^ (n - 1));
            C = padd (pscale u (P ! 0)) (pscale (1 - u) (P ! (n - 1)));
            B = point;
            A = psub B (pdiv (psub C B) r);
            P' = (if n = 3 then P[1 := A]
                  else
                    let e1 = padd (padd (pscale ((1 - t)\<^sup>2) (P ! 0)) (pscale (2 * t * (1 - t)) (P ! 1)))
                                  (pscale (t\<^sup>2) (P ! 2));
                        e2 = padd (padd (pscale ((1 - t)\<^sup>2) (P ! 1)) (pscale (2 * t * (1 - t)) (P ! 2)))
                                  (pscale (t\<^sup>2) (P ! 3));
                        e1' = psub (padd B e1) (valueAt c t);
                        e2' = psub (padd B e2) (valueAt c t);
                        v1 = psub A (pdiv (psub A e1') (1 - t));
                        v2 = padd A (pdiv (psub e2' A) t);
                        P1 = P[1 := padd (P ! 0) (pdiv (psub v1 (P ! 0)) t)]
                    in P1[2 := psub (P1 ! 3) (pdiv (psub (P1 ! 3) v2) (1 - t))])
        in (Inr (), resetCache (c\<lparr>control_points := P'\<rparr>)))"

section \<open>Derivatives\<close>

text \<open>
  \<^verbatim>\<open>derivative()\<close>: for \<^verbatim>\<open>N_ == 1\<close> the constant curve at the origin, else the curve of the
  \<open>N - 1\<close> scaled differences \<open>(N - 1) (P\<^bsub>k+1\<^esub> - P\<^bsub>k\<^esub>)\<close>. The source is not defined for
  \<^verbatim>\<open>N_ == 0\<close> (the unsigned \<^verbatim>\<open>N_ - 1\<close> wraps); statements about derivatives are about
  curves with at least one control point.
\<close>

definition derivative :: "Curve \<Rightarrow> Curve" where
  "derivative c =
     (if N c = 1 then Curve [(0, 0)]
      else Curve (map (\<lambda>k. pscale (real (N c - 1)) (psub (control_points c ! Suc k) (control_points c ! k)))
                   [0..<N c - 1]))"

text \<open>
  \<^verbatim>\<open>derivative(n)\<close> throws for \<open>n = 0\<close>, else takes the derivative once and then \<open>n - 1\<close>
  more times. The method is \<^verbatim>\<open>const\<close>: it has no curve to return changed.
\<close>

definition derivative_n :: "nat \<Rightarrow> Curve \<Rightarrow> error + Curve" where
  "derivative_n n c =
     (if n = 0 then Inl (invalid_argument ''double 'n' cannot be zero.'')
      else Inr ((derivative ^^ (n - 1)) (derivative c)))"

definition derivativeAt :: "Curve \<Rightarrow> real \<Rightarrow> Point" where
  "derivativeAt c t = valueAt (derivative c) t"



section \<open>Arc length and its inversion\<close>

text \<open>
  The header \<^verbatim>\<open>legendre_gauss.h\<close> with \<^verbatim>\<open>LegendreGauss::N\<close>, \<^verbatim>\<open>abcissae\<close> and \<^verbatim>\<open>weights\<close> is
  not among the sources. The table is the parameter \<open>legendre_gauss\<close>, the list of the
  pairs (abscissa, weight) in the order of the arrays.
\<close>

type_synonym LegendreGauss = "(real \<times> real) list"

definition length_between :: "LegendreGauss \<Rightarrow> Curve \<Rightarrow> real \<Rightarrow> real \<Rightarrow> real" where
  "length_between legendre_gauss c t1 t2 =
     (\<Sum>(abcissa, weight)\<leftarrow>legendre_gauss.
         weight * norm_pt (derivativeAt c (abcissa * (t2 - t1) / 2 + (t1 + t2) / 2))) * (t2 - t1) / 2"

definition length_to :: "LegendreGauss \<Rightarrow> Curve \<Rightarrow> real \<Rightarrow> real" where
  "length_to legendre_gauss c t = length_between legendre_gauss c 0 t"

definition length_curve :: "LegendreGauss \<Rightarrow> Curve \<Rightarrow> real" where
  "length_curve legendre_gauss c = length_between legendre_gauss c 0 1"

text \<open>
  The body of the \<^verbatim>\<open>while\<close> loop of \<^verbatim>\<open>iterateByLength\<close> on the pair \<open>(t, f)\<close>. The call
  \<^verbatim>\<open>derivativeAt(2, t)\<close> passes the check of \<^verbatim>\<open>derivative(n)\<close> and evaluates the second
  derivative.
\<close>

definition halley_step :: "LegendreGauss \<Rightarrow> Curve \<Rightarrow> real \<Rightarrow> real \<Rightarrow> real \<times> real \<Rightarrow> real \<times> real" where
  "halley_step legendre_gauss c s_t s tf =
     (let t = fst tf; f = snd tf;
          f_d = norm_pt (derivativeAt c t);
          t' = t - (2 * f * f_d) / (2 * f_d * f_d - f * norm_pt (valueAt (derivative (derivative c)) t));
          f' = length_to legendre_gauss c t' - s_t - s
      in (t', f'))"

text \<open>The loop \<^verbatim>\<open>while (std::fabs(f) > epsilon)\<close>; \<open>None\<close> when it does not end.\<close>

partial_function (option) halley_loop ::
  "LegendreGauss \<Rightarrow> Curve \<Rightarrow> real \<Rightarrow> real \<Rightarrow> real \<Rightarrow> real \<times> real \<Rightarrow> real option" where
  "halley_loop legendre_gauss c s_t s epsilon tf =
     (if \<bar>snd tf\<bar> > epsilon
      then halley_loop legendre_gauss c s_t s epsilon (halley_step legendre_gauss c s_t s tf)
      else Some (fst tf))"

definition iterateByLength :: "LegendreGauss \<Rightarrow> Curve \<Rightarrow> real \<Rightarrow> real \<Rightarrow> real \<Rightarrow> real option" where
  "iterateByLength legendre_gauss c t s epsilon =
     (let s_t = length_to legendre_gauss c t
      in if s_t + s < 0 then Some 0
         else if s_t + s > length_curve legendre_gauss c then Some 1
         else halley_loop legendre_gauss c s_t s epsilon (t, - s))"

section \<open>Roots and extrema\<close>

text \<open>
  \<^verbatim>\<open>trimZeroes\<close>: the index runs down from the size while the coefficient before it
  is zero; the result is the head of that length.
\<close>

fun trim_index :: "VectorXd \<Rightarrow> nat \<Rightarrow> nat" where
  "trim_index vec 0 = 0"
| "trim_index vec (Suc idx) = (if vec ! idx = 0 then trim_index vec idx else Suc idx)"

definition trimZeroes :: "VectorXd \<Rightarrow> VectorXd" where
  "trimZeroes vec = take (trim_index vec (length vec)) vec"

text \<open>
  \<^verbatim>\<open>Eigen::PolynomialSolver\<close> is not part of the repository. The parameter \<open>realRoots\<close>
  stands for \<^verbatim>\<open>compute\<close> followed by \<^verbatim>\<open>realRoots\<close>: from the coefficients, lowest degree
  first, to the list of real roots in the solver's order.
\<close>

definition roots :: "(VectorXd \<Rightarrow> real list) \<Rightarrow> Curve \<Rightarrow> real list" where
  "roots realRoots c =
     (if N c > 1 then
        let bezier_polynomial = mul_points (bernsteinCoeffs (N c)) (control_points c);
            trimmed_X = trimZeroes (map fst bezier_polynomial);
            roots_X = (if length trimmed_X > 1 then realRoots trimmed_X else []);
            trimmed_Y = trimZeroes (map snd bezier_polynomial);
            roots_Y = (if length trimmed_Y > 1 then realRoots trimmed_Y else [])
        in filter (\<lambda>t. t \<ge> 0 \<and> t \<le> 1) roots_X @ filter (\<lambda>t. t \<ge> 0 \<and> t \<le> 1) roots_Y
      else [])"

definition extrema :: "(VectorXd \<Rightarrow> real list) \<Rightarrow> Curve \<Rightarrow> real list" where
  "extrema realRoots c = roots realRoots (derivative c)"


section \<open>Splitting and intersections\<close>

text \<open>
  \<^verbatim>\<open>splittingCoeffsLeft(n, z)\<close> is \<open>B\<^sup>-\<^sup>1 D B\<close> with \<open>B = bernsteinCoeffs(n)\<close> and \<open>D\<close> the
  diagonal matrix of the powers of \<open>z\<close>; \<^verbatim>\<open>splittingCoeffsRight(n, z)\<close> copies, for each \<open>k\<close>,
  the first \<open>n - k\<close> entries of row \<open>n - 1 - k\<close> of the left matrix into row \<open>k\<close> from
  column \<open>k\<close> on. For \<open>z = 0.5\<close> the source memoises the same matrices.
\<close>

definition splittingCoeffsLeft :: "(Coeffs \<Rightarrow> Coeffs) \<Rightarrow> nat \<Rightarrow> real \<Rightarrow> Coeffs" where
  "splittingCoeffsLeft matrix_inverse n z =
     mat_mul (mat_mul (matrix_inverse (bernsteinCoeffs n)) (mat n n (\<lambda>i j. if i = j then z ^ i else 0)))
       (bernsteinCoeffs n)"

definition splittingCoeffsRight :: "(Coeffs \<Rightarrow> Coeffs) \<Rightarrow> nat \<Rightarrow> real \<Rightarrow> Coeffs" where
  "splittingCoeffsRight matrix_inverse n z =
     mat n n (\<lambda>k j. if k \<le> j then splittingCoeffsLeft matrix_inverse n z ! (n - 1 - k) ! (j - k) else 0)"

text \<open>
  \<^verbatim>\<open>BoundingBox\<close> is \<^verbatim>\<open>Eigen::AlignedBox2d\<close>: its two corners, \<^verbatim>\<open>intersects\<close> (closed boxes),
  \<^verbatim>\<open>diagonal\<close> and \<^verbatim>\<open>center\<close>. \<^verbatim>\<open>minCoeff\<close> and \<^verbatim>\<open>maxCoeff\<close> are taken of non-empty columns.
\<close>

record BoundingBox =
  box_min :: Point
  box_max :: Point

definition minCoeff :: "VectorXd \<Rightarrow> real" where
  "minCoeff v = fold min (tl v) (hd v)"

definition maxCoeff :: "VectorXd \<Rightarrow> real" where
  "maxCoeff v = fold max (tl v) (hd v)"

definition bbox :: "PointVector \<Rightarrow> BoundingBox" where
  "bbox cp = \<lparr>box_min = (minCoeff (map fst cp), minCoeff (map snd cp)),
              box_max = (maxCoeff (map fst cp), maxCoeff (map snd cp))\<rparr>"

definition intersects :: "BoundingBox \<Rightarrow> BoundingBox \<Rightarrow> bool" where
  "intersects b1 b2 \<longleftrightarrow>
     fst (box_min b1) \<le> fst (box_max b2) \<and> snd (box_min b1) \<le> snd (box_max b2) \<and>
     fst (box_min b2) \<le> fst (box_max b1) \<and> snd (box_min b2) \<le> snd (box_max b1)"

definition diagonal :: "BoundingBox \<Rightarrow> Point" where
  "diagonal b = psub (box_max b) (box_min b)"

definition center :: "BoundingBox \<Rightarrow> Point" where
  "center b = pdiv (padd (box_min b) (box_max b)) 2"

text \<open>
  One round of \<^verbatim>\<open>while (!subcurve_pairs.empty())\<close> on the pair of the work stack and the
  points found so far; the stack is a vector, its back the last element. \<open>n\<close> is \<^verbatim>\<open>N_\<close> of
  the curve the method is called on. The control points are real numbers, so a split at
  \<open>1/2\<close> halves a polygon exactly; in the source's doubles a segment between two
  neighbouring doubles is split into itself and a point. What is proved below about the
  number of rounds is therefore about exact arithmetic only.
\<close>

definition intersections_step ::
  "(Coeffs \<Rightarrow> Coeffs) \<Rightarrow> nat \<Rightarrow> real \<Rightarrow> (PointVector \<times> PointVector) list \<times> PointVector
     \<Rightarrow> (PointVector \<times> PointVector) list \<times> PointVector" where
  "intersections_step matrix_inverse n epsilon st =
     (let subcurve_pairs = fst st; points_of_intersection = snd st;
          part_a = fst (last subcurve_pairs); part_b = snd (last subcurve_pairs);
          popped = butlast subcurve_pairs;
          bbox1 = bbox part_a; bbox2 = bbox part_b
      in if \<not> intersects bbox1 bbox2 then (popped, points_of_intersection)
         else if norm_pt (diagonal bbox1) < epsilon \<and> norm_pt (diagonal bbox2) < epsilon then
           (let new_point = center bbox1
            in if list_all (\<lambda>point. \<not> norm_pt (psub point new_point) < epsilon) points_of_intersection
               then (popped, points_of_intersection @ [new_point])
               else (popped, points_of_intersection))
         else
           (let subcurves_a =
                  (if norm_pt (diagonal bbox1) < epsilon then [part_a]
                   else [mul_points (splittingCoeffsRight matrix_inverse n (1 / 2)) part_a,
                         mul_points (splittingCoeffsLeft matrix_inverse n (1 / 2)) part_a]);
                subcurves_b =
                  (if norm_pt (diagonal bbox2) < epsilon then [part_b]
                   else [mul_points (splittingCoeffsRight matrix_inverse (length part_b) (1 / 2)) part_b,
                         mul_points (splittingCoeffsLeft matrix_inverse (length part_b) (1 / 2)) part_b])
            in (popped @ concat (map (\<lambda>subcurve_b. map (\<lambda>subcurve_a. (subcurve_a, subcurve_b)) subcurves_a)
                                  subcurves_b),
                points_of_intersection)))"

partial_function (option) intersections_loop ::
  "(Coeffs \<Rightarrow> Coeffs) \<Rightarrow> nat \<Rightarrow> real \<Rightarrow> (PointVector \<times> PointVector) list \<times> PointVector
     \<Rightarrow> PointVector option" where
  "intersections_loop matrix_inverse n epsilon st =
     (if fst st = [] then Some (snd st)
      else intersections_loop matrix_inverse n epsilon (intersections_step matrix_inverse n epsilon st))"

text \<open>
  The self-intersection branch: the loop over the sorted extrema, which splits the last
  sub-curve around \<open>t\<^sub>k\<close> and maps the later parameters by \<open>x \<mapsto> (x - t\<^sub>k) / (1 - t\<^sub>k)\<close>, and
  the pairs \<open>(k, i)\<close> with \<open>k < i\<close> of the sub-curves.
\<close>

function split_at_extrema ::
  "(Coeffs \<Rightarrow> Coeffs) \<Rightarrow> nat \<Rightarrow> real \<Rightarrow> PointVector \<Rightarrow> real list \<Rightarrow> PointVector list \<Rightarrow> PointVector list" where
  "split_at_extrema matrix_inverse n epsilon cp [] subcurves = subcurves"
| "split_at_extrema matrix_inverse n epsilon cp (t # ts) subcurves =
     split_at_extrema matrix_inverse n epsilon cp (map (\<lambda>x. (x - t) / (1 - t)) ts)
       (if subcurves = []
        then [mul_points (splittingCoeffsLeft matrix_inverse n (t - epsilon / 2)) cp,
              mul_points (splittingCoeffsRight matrix_inverse n (t + epsilon / 2)) cp]
        else butlast subcurves @
             [mul_points (splittingCoeffsLeft matrix_inverse n (t - epsilon / 2)) (last subcurves),
              mul_points (splittingCoeffsRight matrix_inverse n (t + epsilon / 2)) (last subcurves)])"
  by pat_completeness auto
termination
  by (relation "measure (\<lambda>(matrix_inverse, n, epsilon, cp, ts, subcurves). length ts)") auto

definition all_pairs :: "'a list \<Rightarrow> ('a \<times> 'a) list" where
  "all_pairs xs = concat (map (\<lambda>k. map (\<lambda>i. (xs ! k, xs ! i)) [Suc k..<length xs]) [0..<length xs])"

text \<open>
  \<^verbatim>\<open>this != &curve\<close> compares addresses. The argument is \<open>This\<close> when the method is given
  the curve it is called on and \<open>Other c'\<close> for another object.
\<close>

datatype curve_ref = This | Other Curve

definition intersections ::
  "(VectorXd \<Rightarrow> real list) \<Rightarrow> (Coeffs \<Rightarrow> Coeffs) \<Rightarrow> Curve \<Rightarrow> curve_ref \<Rightarrow> real \<Rightarrow> PointVector option" where
  "intersections realRoots matrix_inverse c curve epsilon =
     intersections_loop matrix_inverse (N c) epsilon
       (case curve of
          Other c' \<Rightarrow> [(control_points c, control_points c')]
        | This \<Rightarrow> all_pairs (split_at_extrema matrix_inverse (N c) epsilon (control_points c)
                              (sort (extrema realRoots c)) []),
        [])"


section \<open>Sturm root isolation\<close>

unbundle bit_operations_syntax

text \<open>
  \<^verbatim>\<open>enum RootTypeFlag { Convex = 1, Concave = 2, Inflection = 4, All = 8 }\<close>; \<^verbatim>\<open>root_type\<close>
  is an \<^verbatim>\<open>int\<close> tested with \<^verbatim>\<open>&\<close>.
\<close>

definition Convex :: int where "Convex = 1"
definition Concave :: int where "Concave = 2"
definition Inflection :: int where "Inflection = 4"
definition AllRoots :: int where "AllRoots = 8"

text \<open>
  \<^verbatim>\<open>interval(sturm_chain, t1, t2)\<close>: each row of the chain is evaluated at \<open>t1\<close> and at \<open>t2\<close>
  on the powers \<open>t\<^bsup>cols-1\<^esup>, \<dots>, t\<^sup>0\<close>, the sign changes down each column of values are
  counted, and the difference of the two counts is returned as an \<^verbatim>\<open>int\<close>.
  \<^verbatim>\<open>std::signbit\<close> of a real number is whether it is negative.
\<close>

definition signbit :: "real \<Rightarrow> bool" where
  "signbit x \<longleftrightarrow> x < 0"

definition descending_powers :: "real \<Rightarrow> nat \<Rightarrow> VectorXd" where
  "descending_powers t n = map (\<lambda>k. t ^ (n - 1 - k)) [0..<n]"

definition mat_vec :: "Coeffs \<Rightarrow> VectorXd \<Rightarrow> VectorXd" where
  "mat_vec A v = map (\<lambda>row. \<Sum>k\<leftarrow>[0..<length v]. row ! k * v ! k) A"

definition sign_changes :: "VectorXd \<Rightarrow> nat" where
  "sign_changes v = length (filter (\<lambda>k. signbit (v ! (k - 1)) \<noteq> signbit (v ! k)) [1..<length v])"

definition Sturm_interval :: "Coeffs \<Rightarrow> real \<Rightarrow> real \<Rightarrow> int" where
  "Sturm_interval sturm_chain t1 t2 =
     int (sign_changes (mat_vec sturm_chain (descending_powers t1 (cols sturm_chain))))
   - int (sign_changes (mat_vec sturm_chain (descending_powers t2 (cols sturm_chain))))"

text \<open>\<^verbatim>\<open>static_cast<uint>\<close> of an \<^verbatim>\<open>int\<close>: its value modulo \<open>2\<^sup>3\<^sup>2\<close>.\<close>

definition uint_of_int :: "int \<Rightarrow> nat" where
  "uint_of_int i = nat (i mod 2 ^ 32)"

text \<open>
  The test of the lambda \<^verbatim>\<open>iterate\<close> that sets \<^verbatim>\<open>flag\<close>: \<open>g_a\<close> and \<open>g_b\<close> are the values
  of the first row of the chain at \<open>a\<close> and at \<open>b\<close>.
\<close>

definition Sturm_filter :: "Coeffs \<Rightarrow> int \<Rightarrow> real \<Rightarrow> real \<Rightarrow> bool" where
  "Sturm_filter sturm_chain root_type a b =
     (let g_a = hd (mat_vec [hd sturm_chain] (descending_powers a (cols sturm_chain)));
          g_b = hd (mat_vec [hd sturm_chain] (descending_powers b (cols sturm_chain)))
      in (root_type AND Convex \<noteq> 0 \<and> g_a \<le> 0 \<and> g_b > 0)
       \<or> (root_type AND Concave \<noteq> 0 \<and> g_a > 0 \<and> g_b \<le> 0)
       \<or> (root_type AND Inflection \<noteq> 0 \<and> ((g_a \<ge> 0 \<and> g_b \<ge> 0) \<or> (g_a \<le> 0 \<and> g_b \<le> 0))))"

text \<open>
  The lambda \<^verbatim>\<open>iterate\<close> of \<^verbatim>\<open>Sturm::roots\<close>, on the pair of the vectors \<^verbatim>\<open>intervals\<close> and
  \<^verbatim>\<open>roots\<close> it captures by reference. In \<^verbatim>\<open>case 1\<close> the flag is tested only when \<^verbatim>\<open>root_type != All\<close>, the
  flag is not yet set and \<^verbatim>\<open>root_type\<close> has no \<^verbatim>\<open>All\<close> bit; the two halves are then pushed
  with the flag set, or nothing is.
\<close>

definition Sturm_iterate ::
  "Coeffs \<Rightarrow> int \<Rightarrow> real \<Rightarrow> real \<times> real \<times> bool \<Rightarrow> (real \<times> real \<times> bool) list \<times> real list
     \<Rightarrow> (real \<times> real \<times> bool) list \<times> real list" where
  "Sturm_iterate sturm_chain root_type epsilon item st =
     (let a = fst item; b = fst (snd item); flag = snd (snd item);
          intervals = fst st; roots = snd st;
          a_b = (a + b) / 2;
          counted = uint_of_int (Sturm_interval sturm_chain a b);
          root_num = (if counted \<noteq> 0 \<and> a_b - a < epsilon then 1 else counted)
      in if root_num = 0 then (intervals, roots)
         else if root_num = 1 \<and> a_b - a < epsilon then (intervals, roots @ [(a + a_b) / 2])
         else if root_num = 1 \<and> root_type \<noteq> AllRoots \<and> \<not> flag \<and> root_type AND AllRoots = 0 then
           (if Sturm_filter sturm_chain root_type a b
            then (intervals @ [(a, a_b, True), (a_b, b, True)], roots)
            else (intervals, roots))
         else (intervals @ [(a, a_b, flag), (a_b, b, flag)], roots))"

text \<open>
  One round of \<^verbatim>\<open>while (!intervals.empty())\<close>: the back of the stack is popped, halved,
  and \<^verbatim>\<open>iterate\<close> runs on the left half and then on the right half. The bounds are real
  numbers, so \<open>(a + b) / 2\<close> is the exact midpoint and lies strictly between \<open>a < b\<close>; in the
  source's doubles the midpoint of two neighbouring doubles is one of them. What is proved
  below about the number of rounds is therefore about exact arithmetic only.
\<close>

definition Sturm_round ::
  "Coeffs \<Rightarrow> int \<Rightarrow> real \<Rightarrow> (real \<times> real \<times> bool) list \<times> real list
     \<Rightarrow> (real \<times> real \<times> bool) list \<times> real list" where
  "Sturm_round sturm_chain root_type epsilon st =
     (let a = fst (last (fst st)); b = fst (snd (last (fst st))); flag = snd (snd (last (fst st)));
          a_b = (a + b) / 2
      in Sturm_iterate sturm_chain root_type epsilon (a_b, b, flag)
           (Sturm_iterate sturm_chain root_type epsilon (a, a_b, flag) (butlast (fst st), snd st)))"

partial_function (option) Sturm_loop ::
  "Coeffs \<Rightarrow> int \<Rightarrow> real \<Rightarrow> (real \<times> real \<times> bool) list \<times> real list \<Rightarrow> real list option" where
  "Sturm_loop sturm_chain root_type epsilon st =
     (if fst st = [] then Some (snd st)
      else Sturm_loop sturm_chain root_type epsilon (Sturm_round sturm_chain root_type epsilon st))"



section \<open>Reference definitions\<close>

text \<open>
  The Bernstein form of the glossary, \<open>C(t) = \<Sum>\<^sub>k C(n-1,k) (1-t)\<^bsup>n-1-k\<^esup> t\<^sup>k P\<^sub>k\<close>, with the
  binomial coefficient of the natural numbers.
\<close>

definition bernstein_polynomial :: "nat \<Rightarrow> nat \<Rightarrow> real \<Rightarrow> real" where
  "bernstein_polynomial m k t = real (m choose k) * (1 - t) ^ (m - k) * t ^ k"

definition bernstein_reference :: "PointVector \<Rightarrow> real \<Rightarrow> Point" where
  "bernstein_reference P t =
     (\<Sum>k\<leftarrow>[0..<length P]. bernstein_polynomial (length P - 1) k t * fst (P ! k),
      \<Sum>k\<leftarrow>[0..<length P]. bernstein_polynomial (length P - 1) k t * snd (P ! k))"

text \<open>The entries of the \<open>m\<close>-th power of the subdiagonal matrix.\<close>

definition subdiagonal_power :: "nat \<Rightarrow> nat \<Rightarrow> nat \<Rightarrow> real" where
  "subdiagonal_power m i j = (if i = j + m then (- 1) ^ m * real (fact i) / real (fact j) else 0)"

text \<open>
  A call of \<^verbatim>\<open>valueAt\<close> as its caller sees it: a value or an exception. The body has no
  \<^verbatim>\<open>throw\<close> and no test of \<open>t\<close>, so every call returns its value.
\<close>

definition valueAt_call :: "Curve \<Rightarrow> real \<Rightarrow> error + Point" where
  "valueAt_call c t = Inr (valueAt c t)"






text \<open>
  Two stand-ins for the examples: the solver of a polynomial of degree one, and the
  inverse of an invertible \<open>2 \<times> 2\<close> matrix by its adjugate.
\<close>

definition linear_solver :: "VectorXd \<Rightarrow> real list" where
  "linear_solver p = (if length p = 2 then [- (p ! 0) / (p ! 1)] else [])"

definition adjugate_inverse :: "Coeffs \<Rightarrow> Coeffs" where
  "adjugate_inverse A =
     (let det = A ! 0 ! 0 * A ! 1 ! 1 - A ! 0 ! 1 * A ! 1 ! 0
      in [[A ! 1 ! 1 / det, - (A ! 0 ! 1) / det], [- (A ! 1 ! 0) / det, A ! 0 ! 0 / det]])"












section \<open>Matrices: entries and products\<close>


lemma length_mat: "length (mat r c f) = r"
  by (simp add: mat_def)

lemma rows_mat: "rows (mat r c f) = r"
  by (simp add: rows_def mat_def)

lemma mat_nth: "i < r \<Longrightarrow> j < c \<Longrightarrow> mat r c f ! i ! j = f i j"
  by (simp add: mat_def)

lemma cols_mat: "0 < r \<Longrightarrow> cols (mat r c f) = c"
  by (cases r) (simp_all add: cols_def mat_def upt_conv_Cons del: upt_Suc)

lemma mat_cong: "(\<And>i j. i < r \<Longrightarrow> j < c \<Longrightarrow> f i j = g i j) \<Longrightarrow> mat r c f = mat r c g"
  by (simp add: mat_def)

lemma sum_list_upt: "(\<Sum>k\<leftarrow>[0..<n]. f k) = (\<Sum>k<n. (f k :: real))"
  by (simp add: interv_sum_list_conv_sum_set_nat atLeast0LessThan)

lemma mat_mul_mat:
  assumes "0 < m"
  shows "mat_mul (mat r m f) (mat m c g) = mat r c (\<lambda>i j. \<Sum>k<m. f i k * g k j)"
proof -
  have "mat_mul (mat r m f) (mat m c g)
      = mat r c (\<lambda>i j. \<Sum>k<m. mat r m f ! i ! k * mat m c g ! k ! j)"
    using assms by (simp add: mat_mul_def rows_mat cols_mat sum_list_upt)
  also have "\<dots> = mat r c (\<lambda>i j. \<Sum>k<m. f i k * g k j)"
    by (rule mat_cong) (simp add: mat_nth)
  finally show ?thesis .
qed


lemma subdiagonal_power_Suc: "- (subdiagonal_power m i (Suc j) * real (Suc j)) = subdiagonal_power (Suc m) i j"
proof -
  have "x / real (fact (Suc j)) * real (Suc j) = x / real (fact j)" for x :: real
  proof -
    have "real (fact (Suc j)) = real (Suc j) * real (fact j)" by (simp add: algebra_simps)
    then show ?thesis by (simp del: of_nat_Suc fact_Suc)
  qed
  then show ?thesis
    by (simp add: subdiagonal_power_def del: of_nat_Suc fact_Suc)
qed

lemma mat_pow_subdiagonal:
  assumes "0 < n"
  shows "mat_pow (subdiagonal n) m = mat n n (subdiagonal_power m)"
proof (induction m)
  case 0
  show ?case
    unfolding mat_pow.simps identity_def
    by (simp add: subdiagonal_def rows_mat, rule mat_cong) (simp add: subdiagonal_power_def)
next
  case (Suc m)
  have "mat_pow (subdiagonal n) (Suc m) = mat_mul (mat n n (subdiagonal_power m)) (subdiagonal n)"
    by (simp add: Suc)
  also have "\<dots> = mat n n (\<lambda>i j. \<Sum>k<n. subdiagonal_power m i k * (if k = Suc j then - real k else 0))"
    unfolding subdiagonal_def by (rule mat_mul_mat [OF assms])
  also have "\<dots> = mat n n (subdiagonal_power (Suc m))"
  proof (rule mat_cong)
    fix i j assume ij: "i < n" "j < n"
    have "(\<Sum>k<n. subdiagonal_power m i k * (if k = Suc j then - real k else 0))
        = (\<Sum>k<n. if k = Suc j then - (subdiagonal_power m i (Suc j) * real (Suc j)) else 0)"
      by (rule sum.cong) (auto simp: algebra_simps)
    also have "\<dots> = (if Suc j < n then - (subdiagonal_power m i (Suc j) * real (Suc j)) else 0)"
      by simp
    also have "\<dots> = subdiagonal_power (Suc m) i j"
    proof (cases "Suc j < n")
      case True
      then show ?thesis by (simp only: subdiagonal_power_Suc if_True)
    next
      case False
      with ij have "i \<noteq> j + Suc m" by simp
      with False show ?thesis by (simp add: subdiagonal_power_def)
    qed
    finally show "(\<Sum>k<n. subdiagonal_power m i k * (if k = Suc j then - real k else 0)) = subdiagonal_power (Suc m) i j" .
  qed
  finally show ?case .
qed

lemma matrix_exp_subdiagonal:
  assumes "i < n" "j < n"
  shows "matrix_exp (subdiagonal n) ! i ! j
       = (if j \<le> i then (- 1) ^ (i - j) * real (i choose j) else 0)"
proof -
  have n: "0 < n" using assms by simp
  have r: "rows (subdiagonal n) = n" by (simp add: subdiagonal_def rows_mat)
  have "matrix_exp (subdiagonal n) ! i ! j = (\<Sum>m<n. subdiagonal_power m i j / real (fact m))"
    using assms by (simp add: matrix_exp_def r mat_nth sum_list_upt mat_pow_subdiagonal [OF n] factorial_def)
  also have "\<dots> = (\<Sum>m<n. if m = i - j then (if j \<le> i then subdiagonal_power (i - j) i j / real (fact (i - j)) else 0) else 0)"
    by (rule sum.cong) (auto simp: subdiagonal_power_def)
  also have "\<dots> = (if j \<le> i then subdiagonal_power (i - j) i j / real (fact (i - j)) else 0)"
    using assms less_imp_diff_less [of i n j] by simp
  also have "\<dots> = (if j \<le> i then (- 1) ^ (i - j) * real (i choose j) else 0)"
    by (simp add: subdiagonal_power_def binomial_fact)
  finally show ?thesis .
qed

lemma binomial_coeff_choose: "k \<le> n \<Longrightarrow> binomial_coeff n k = real (n choose k)"
  by (simp add: binomial_coeff_def factorial_def binomial_fact)

lemma bernsteinCoeffs_nth:
  assumes "k < n" "j < n"
  shows "bernsteinCoeffs n ! k ! j
       = (if j \<le> k then real ((n - 1) choose k) * ((- 1) ^ (k - j) * real (k choose j)) else 0)"
  using assms by (simp add: bernsteinCoeffs_def mat_nth matrix_exp_subdiagonal binomial_coeff_choose)

lemma bernstein_column:
  assumes "j < n"
  shows "(\<Sum>i<n. t ^ i * bernsteinCoeffs n ! i ! j)
       = real ((n - 1) choose j) * (1 - t) ^ (n - 1 - j) * t ^ j"
proof -
  define M where "M = n - 1"
  have n: "n = Suc M" and jM: "j \<le> M" using assms by (simp_all add: M_def)
  have "(\<Sum>i<n. t ^ i * bernsteinCoeffs n ! i ! j)
      = (\<Sum>i<n. if j \<le> i then t ^ i * (real (M choose i) * ((- 1) ^ (i - j) * real (i choose j))) else 0)"
    by (rule sum.cong) (simp_all add: bernsteinCoeffs_nth assms M_def)
  also have "\<dots> = (\<Sum>i\<in>{j..M}. t ^ i * (real (M choose i) * ((- 1) ^ (i - j) * real (i choose j))))"
    unfolding n by (subst sum.inter_filter [symmetric]) (auto intro!: sum.cong)
  also have "\<dots> = (\<Sum>m\<le>M - j. t ^ (j + m) * (real (M choose (j + m)) * ((- 1) ^ m * real ((j + m) choose j))))"
    by (rule sum.reindex_bij_witness [where i = "\<lambda>m. j + m" and j = "\<lambda>i. i - j"]) (use jM in auto)
  also have "\<dots> = (\<Sum>m\<le>M - j. real (M choose j) * t ^ j * (real ((M - j) choose m) * (- t) ^ m * 1 ^ (M - j - m)))"
  proof (rule sum.cong)
    fix m assume "m \<in> {..M - j}"
    then have le: "j + m \<le> M" using jM by simp
    have "(M choose (j + m)) * ((j + m) choose j) = (M choose j) * ((M - j) choose m)"
      using choose_mult [of j "j + m" M] le by simp
    then have "real (M choose (j + m)) * real ((j + m) choose j) = real (M choose j) * real ((M - j) choose m)"
      by (metis of_nat_mult)
    then show "t ^ (j + m) * (real (M choose (j + m)) * ((- 1) ^ m * real ((j + m) choose j)))
       = real (M choose j) * t ^ j * (real ((M - j) choose m) * (- t) ^ m * 1 ^ (M - j - m))"
      by (simp add: power_add power_minus [of t m] algebra_simps)
  qed simp
  also have "\<dots> = real (M choose j) * t ^ j * (\<Sum>m\<le>M - j. real ((M - j) choose m) * (- t) ^ m * 1 ^ (M - j - m))"
    by (simp only: sum_distrib_left)
  also have "\<dots> = real (M choose j) * t ^ j * (- t + 1) ^ (M - j)"
    by (simp only: binomial_ring [of "- t" 1 "M - j"])
  finally show ?thesis by (simp add: M_def algebra_simps)
qed


lemma rows_bernsteinCoeffs: "rows (bernsteinCoeffs n) = n"
  by (simp add: bernsteinCoeffs_def rows_mat)

lemma cols_bernsteinCoeffs: "0 < n \<Longrightarrow> cols (bernsteinCoeffs n) = n"
  by (simp add: bernsteinCoeffs_def cols_mat)

lemma power_basis_mul:
  assumes "j < n"
  shows "mat_mul [power_basis t n] (bernsteinCoeffs n) ! 0 ! j
       = real ((n - 1) choose j) * (1 - t) ^ (n - 1 - j) * t ^ j"
proof -
  have n: "0 < n" using assms by simp
  have "mat_mul [power_basis t n] (bernsteinCoeffs n) ! 0 ! j
      = (\<Sum>i<n. power_basis t n ! i * bernsteinCoeffs n ! i ! j)"
    using assms by (simp add: mat_mul_def rows_def [of "[x]" for x] cols_bernsteinCoeffs [OF n]
        rows_bernsteinCoeffs mat_nth sum_list_upt)
  also have "\<dots> = (\<Sum>i<n. t ^ i * bernsteinCoeffs n ! i ! j)"
    by (rule sum.cong) (simp_all add: power_basis_def)
  finally show ?thesis by (simp add: bernstein_column [OF assms])
qed

lemma valueAt_reference:
  assumes "P \<noteq> []"
  shows "valueAt (Curve P) t = bernstein_reference P t"
proof -
  define n where "n = length P"
  define M where "M = mat_mul [power_basis t n] (bernsteinCoeffs n)"
  have n: "0 < n" using assms by (simp add: n_def)
  have rM: "rows M = 1" by (simp add: M_def mat_mul_def rows_mat) (simp add: rows_def)
  have M0: "M ! 0 ! j = real ((n - 1) choose j) * (1 - t) ^ (n - 1 - j) * t ^ j" if "j < n" for j
    unfolding M_def by (rule power_basis_mul [OF that])
  have "valueAt (Curve P) t = hd (mul_points M P)"
    using n by (simp add: valueAt_def Curve_def M_def n_def)
  also have "\<dots> = (\<Sum>k<n. M ! 0 ! k * fst (P ! k), \<Sum>k<n. M ! 0 ! k * snd (P ! k))"
    by (simp add: mul_points_def rM sum_list_upt n_def)
  also have "\<dots> = bernstein_reference P t"
    by (simp add: bernstein_reference_def bernstein_polynomial_def sum_list_upt n_def [symmetric] M0)
  finally show ?thesis .
qed


lemma elevateOrderCoeffs_nth:
  "i < n + 1 \<Longrightarrow> j < n \<Longrightarrow> elevateOrderCoeffs n ! i ! j =
     (if i = j then 1 - real j / real n else if i = Suc j then real (Suc j) / real n else 0)"
  by (simp add: elevateOrderCoeffs_def mat_nth)

lemma length_mul_points: "length (mul_points A P) = rows A"
  by (simp add: mul_points_def)

lemma mul_points_nth:
  "i < rows A \<Longrightarrow> mul_points A P ! i =
     (\<Sum>k<length P. A ! i ! k * fst (P ! k), \<Sum>k<length P. A ! i ! k * snd (P ! k))"
  by (simp add: mul_points_def sum_list_upt)

lemma elevateOrder_Curve:
  "elevateOrder (Curve P) = Curve (mul_points (elevateOrderCoeffs (length P)) P)"
  by (simp add: elevateOrder_def Curve_def resetCache_def)

lemma bernstein_polynomial_elevate:
  assumes "k \<le> M"
  shows "bernstein_polynomial (Suc M) k t * (1 - real k / real (Suc M))
       + bernstein_polynomial (Suc M) (Suc k) t * (real (Suc k) / real (Suc M)) = bernstein_polynomial M k t"
proof -
  have a: "real (Suc M choose k) * (1 - real k / real (Suc M)) = real (M choose k)"
  proof -
    have "(Suc M - k) * (Suc M choose k) = Suc M * (M choose k)"
      using binomial_absorb_comp [of "Suc M" k] by simp
    then have "real (Suc M - k) * real (Suc M choose k) = real (Suc M) * real (M choose k)"
      by (metis of_nat_mult)
    moreover have "real (Suc M - k) = real (Suc M) - real k"
      using assms by (simp add: of_nat_diff)
    ultimately show ?thesis
      by (simp add: field_simps del: of_nat_Suc binomial_Suc_n)
  qed
  have b: "real (Suc M choose Suc k) * (real (Suc k) / real (Suc M)) = real (M choose k)"
  proof -
    have "Suc k * (Suc M choose Suc k) = Suc M * (M choose k)"
      by (rule Suc_times_binomial)
    then have "real (Suc k) * real (Suc M choose Suc k) = real (Suc M) * real (M choose k)"
      by (metis of_nat_mult)
    then show ?thesis
      by (simp add: field_simps del: of_nat_Suc binomial_Suc_Suc)
  qed
  have c: "Suc M - k = Suc (M - k)" using assms by simp
  have "bernstein_polynomial (Suc M) k t * (1 - real k / real (Suc M))
      = (real (Suc M choose k) * (1 - real k / real (Suc M))) * ((1 - t) ^ (M - k) * t ^ k * (1 - t))"
    by (simp add: bernstein_polynomial_def c del: of_nat_Suc binomial_Suc_n)
  moreover have "bernstein_polynomial (Suc M) (Suc k) t * (real (Suc k) / real (Suc M))
      = (real (Suc M choose Suc k) * (real (Suc k) / real (Suc M))) * ((1 - t) ^ (M - k) * t ^ k * t)"
    by (simp add: bernstein_polynomial_def del: of_nat_Suc binomial_Suc_Suc)
  ultimately show ?thesis
    unfolding a b by (simp add: bernstein_polynomial_def algebra_simps)
qed

lemma elevate_column:
  assumes "k < n"
  shows "(\<Sum>i<Suc n. bernstein_polynomial n i t * elevateOrderCoeffs n ! i ! k) = bernstein_polynomial (n - 1) k t"
proof -
  obtain M where n: "n = Suc M" and kM: "k \<le> M"
    using assms by (cases n) auto
  have "(\<Sum>i<Suc n. bernstein_polynomial n i t * elevateOrderCoeffs n ! i ! k)
      = (\<Sum>i<Suc n. (if i = k then bernstein_polynomial n k t * (1 - real k / real n) else 0)
                   + (if i = Suc k then bernstein_polynomial n (Suc k) t * (real (Suc k) / real n) else 0))"
    by (rule sum.cong) (auto simp: elevateOrderCoeffs_nth assms)
  also have "\<dots> = bernstein_polynomial n k t * (1 - real k / real n) + bernstein_polynomial n (Suc k) t * (real (Suc k) / real n)"
    using assms by (simp add: sum.distrib)
  also have "\<dots> = bernstein_polynomial (n - 1) k t"
    unfolding n using bernstein_polynomial_elevate [OF kM] by simp
  finally show ?thesis .
qed

lemma bernstein_reference_bern:
  "bernstein_reference P t =
     (\<Sum>k<length P. bernstein_polynomial (length P - 1) k t * fst (P ! k),
      \<Sum>k<length P. bernstein_polynomial (length P - 1) k t * snd (P ! k))"
  by (simp add: bernstein_reference_def sum_list_upt)

lemma elevate_sum:
  fixes x :: "nat \<Rightarrow> real"
  shows "(\<Sum>i<Suc n. bernstein_polynomial n i t * (\<Sum>k<n. elevateOrderCoeffs n ! i ! k * x k))
       = (\<Sum>k<n. bernstein_polynomial (n - 1) k t * x k)"
proof -
  have "(\<Sum>i<Suc n. bernstein_polynomial n i t * (\<Sum>k<n. elevateOrderCoeffs n ! i ! k * x k))
      = (\<Sum>i<Suc n. \<Sum>k<n. (bernstein_polynomial n i t * elevateOrderCoeffs n ! i ! k) * x k)"
    by (simp only: sum_distrib_left mult.assoc)
  also have "\<dots> = (\<Sum>k<n. \<Sum>i<Suc n. (bernstein_polynomial n i t * elevateOrderCoeffs n ! i ! k) * x k)"
    by (rule sum.swap)
  also have "\<dots> = (\<Sum>k<n. (\<Sum>i<Suc n. bernstein_polynomial n i t * elevateOrderCoeffs n ! i ! k) * x k)"
    by (simp only: sum_distrib_right)
  also have "\<dots> = (\<Sum>k<n. bernstein_polynomial (n - 1) k t * x k)"
    by (rule sum.cong) (simp_all only: elevate_column lessThan_iff)
  finally show ?thesis .
qed

lemma elevate_reference:
  "bernstein_reference (mul_points (elevateOrderCoeffs (length P)) P) t = bernstein_reference P t"
proof -
  define n where "n = length P"
  define Q where "Q = mul_points (elevateOrderCoeffs n) P"
  have lQ: "length Q = Suc n"
    by (simp add: Q_def length_mul_points elevateOrderCoeffs_def rows_mat)
  have Qi: "Q ! i = (\<Sum>k<n. elevateOrderCoeffs n ! i ! k * fst (P ! k),
                     \<Sum>k<n. elevateOrderCoeffs n ! i ! k * snd (P ! k))" if "i < Suc n" for i
    using that by (simp add: Q_def mul_points_nth elevateOrderCoeffs_def rows_mat n_def)
  have "bernstein_reference Q t =
     (\<Sum>i<Suc n. bernstein_polynomial n i t * (\<Sum>k<n. elevateOrderCoeffs n ! i ! k * fst (P ! k)),
      \<Sum>i<Suc n. bernstein_polynomial n i t * (\<Sum>k<n. elevateOrderCoeffs n ! i ! k * snd (P ! k)))"
    unfolding bernstein_reference_bern lQ by (simp add: Qi)
  also have "\<dots> = bernstein_reference P t"
    unfolding elevate_sum bernstein_reference_bern n_def ..
  finally show ?thesis by (simp add: Q_def n_def)
qed

lemma elevateOrder_valueAt:
  assumes "P \<noteq> []"
  shows "valueAt (elevateOrder (Curve P)) t = valueAt (Curve P) t"
proof -
  have "mul_points (elevateOrderCoeffs (length P)) P \<noteq> []"
    using length_mul_points [of "elevateOrderCoeffs (length P)" P]
    by (auto simp: elevateOrderCoeffs_def rows_mat)
  then show ?thesis
    by (simp add: elevateOrder_Curve valueAt_reference assms elevate_reference)
qed

lemmas matrix_eval =
  mat_def rows_def cols_def mat_mul_def mul_points_def bernsteinCoeffs_def matrix_exp_def
  subdiagonal_def identity_def binomial_coeff_def factorial_def power_basis_def
  elevateOrderCoeffs_def upt_conv_Cons fact_numeral eval_nat_numeral

section \<open>Evaluation\<close>

text \<open>
  Claim C1. For a curve with \<open>n \<ge> 1\<close> control points \<open>valueAt(t)\<close> is the product of the
  row of powers \<open>1, t, \<dots>, t\<^bsup>n-1\<^esup>\<close>, the matrix \<open>B\<^sub>n\<close> and the control points, and it equals
  the Bernstein form \<open>\<Sum>\<^sub>k C(n-1,k) (1-t)\<^bsup>n-1-k\<^esup> t\<^sup>k P\<^sub>k\<close>; for \<open>n = 0\<close> it is the
  origin. This holds for every real \<open>t\<close>, in particular on \<open>[0, 1]\<close>.
\<close>

theorem valueAt_bernstein:
  "valueAt (Curve []) t = (0, 0)
   \<and> (P \<noteq> [] \<longrightarrow>
        valueAt (Curve P) t
          = hd (mul_points (mat_mul [power_basis t (length P)] (bernsteinCoeffs (length P))) P)
        \<and> valueAt (Curve P) t = bernstein_reference P t)"
proof -
  have "valueAt (Curve []) t = (0, 0)"
    by (simp add: valueAt_def Curve_def)
  moreover have "valueAt (Curve P) t
      = hd (mul_points (mat_mul [power_basis t (length P)] (bernsteinCoeffs (length P))) P)"
    if "P \<noteq> []"
    using that by (simp add: valueAt_def Curve_def)
  ultimately show ?thesis
    using valueAt_reference [of P t] by simp
qed

theorem valueAt_bernstein_witness:
  "valueAt (Curve [(0, 0), (1, 2), (2, - 1), (3, 0)]) (1 / 2) = (3 / 2, 3 / 8)
   \<and> bernstein_reference [(0, 0), (1, 2), (2, - 1), (3, 0)] (1 / 2) = (3 / 2, 3 / 8)"
proof -
  have r: "bernstein_reference [(0, 0), (1, 2), (2, - 1), (3, 0)] (1 / 2) = (3 / 2, 3 / 8)"
    by (simp add: bernstein_reference_def bernstein_polynomial_def upt_conv_Cons eval_nat_numeral
        binomial_Suc_Suc del: upt_Suc)
  have "valueAt (Curve [(0, 0), (1, 2), (2, - 1), (3, 0)]) (1 / 2)
      = bernstein_reference [(0, 0), (1, 2), (2, - 1), (3, 0)] (1 / 2)"
    using valueAt_bernstein [of "1 / 2" "[(0, 0), (1, 2), (2, - 1), (3, 0)]"] by blast
  with r show ?thesis by simp
qed

text \<open>
  Claim C3, as the code has it. \<open>valueAt\<close> has no domain check: for every real \<open>t\<close>, inside
  \<open>[0, 1]\<close> or not, the call returns the value of the curve's polynomial at \<open>t\<close> (the origin
  for a curve without control points) and reports nothing to the caller.
\<close>

theorem valueAt_call_total:
  "valueAt_call (Curve P) t = Inr (if P = [] then (0, 0) else bernstein_reference P t)"
  by (simp add: valueAt_call_def valueAt_reference) (simp add: valueAt_def Curve_def)

theorem valueAt_call_total_witness:
  "valueAt_call (Curve [(0, 0), (1, 2), (2, 0)]) (- 1) = Inr (- 2, - 8)"
  using valueAt_call_total [of "[(0, 0), (1, 2), (2, 0)]" "- 1"]
  by (simp add: bernstein_reference_def bernstein_polynomial_def upt_conv_Cons eval_nat_numeral
      del: upt_Suc)

text \<open>
  Against the claim as stated: \<open>t = 2\<close> is outside \<open>[0, 1]\<close>, and the call on the segment from
  \<open>(0, 0)\<close> to \<open>(1, 1)\<close> returns the point \<open>(2, 2)\<close>, not an error.
\<close>

theorem valueAt_domain_counterexample:
  "\<not> (0 \<le> (2 :: real) \<and> (2 :: real) \<le> 1) \<and> valueAt_call (Curve [(0, 0), (1, 1)]) 2 = Inr (2, 2)"
  by (simp add: valueAt_call_def valueAt_reference bernstein_reference_def bernstein_polynomial_def
      upt_conv_Cons del: upt_Suc)

section \<open>Order elevation\<close>

text \<open>
  Claim C5. For a curve with \<open>n \<ge> 1\<close> control points (so for every \<open>n \<ge> 2\<close>)
  \<open>elevateOrder\<close> replaces the control points by \<open>E\<^sub>n P\<close>, where \<open>E\<^sub>n\<close> has \<open>n + 1\<close> rows, the
  diagonal \<open>1 - k/n\<close>, the subdiagonal \<open>(k+1)/n\<close> and zeros elsewhere; the order grows by one
  and the value at every \<open>t\<close> is the value before.
\<close>

theorem elevateOrder_preserves:
  "P \<noteq> [] \<longrightarrow>
     control_points (elevateOrder (Curve P)) = mul_points (elevateOrderCoeffs (length P)) P
   \<and> rows (elevateOrderCoeffs (length P)) = length P + 1
   \<and> (\<forall>i j. i < length P + 1 \<and> j < length P \<longrightarrow>
         elevateOrderCoeffs (length P) ! i ! j
           = (if i = j then 1 - real j / real (length P)
              else if i = j + 1 then real (j + 1) / real (length P) else 0))
   \<and> N (elevateOrder (Curve P)) = length P + 1
   \<and> order (elevateOrder (Curve P)) = order (Curve P) + 1
   \<and> valueAt (elevateOrder (Curve P)) t = valueAt (Curve P) t"
proof
  assume P: "P \<noteq> []"
  have len: "length (mul_points (elevateOrderCoeffs (length P)) P) = length P + 1"
    by (simp add: length_mul_points elevateOrderCoeffs_def rows_mat)
  have "order (elevateOrder (Curve P)) = order (Curve P) + 1"
    unfolding elevateOrder_Curve using P by (simp add: order_def Curve_def len)
  moreover have "N (elevateOrder (Curve P)) = length P + 1"
    unfolding elevateOrder_Curve by (simp add: Curve_def len)
  moreover have "control_points (elevateOrder (Curve P)) = mul_points (elevateOrderCoeffs (length P)) P"
    unfolding elevateOrder_Curve by (simp add: Curve_def)
  moreover have "rows (elevateOrderCoeffs (length P)) = length P + 1"
    by (simp add: elevateOrderCoeffs_def rows_mat)
  ultimately show "control_points (elevateOrder (Curve P)) = mul_points (elevateOrderCoeffs (length P)) P
   \<and> rows (elevateOrderCoeffs (length P)) = length P + 1
   \<and> (\<forall>i j. i < length P + 1 \<and> j < length P \<longrightarrow>
         elevateOrderCoeffs (length P) ! i ! j
           = (if i = j then 1 - real j / real (length P)
              else if i = j + 1 then real (j + 1) / real (length P) else 0))
   \<and> N (elevateOrder (Curve P)) = length P + 1
   \<and> order (elevateOrder (Curve P)) = order (Curve P) + 1
   \<and> valueAt (elevateOrder (Curve P)) t = valueAt (Curve P) t"
    using elevateOrder_valueAt [OF P, of t] by (simp add: elevateOrderCoeffs_nth)
qed

theorem elevateOrder_preserves_witness:
  "control_points (elevateOrder (Curve [(0, 0), (1, 2), (2, 0)]))
     = [(0, 0), (2 / 3, 4 / 3), (4 / 3, 4 / 3), (2, 0)]
   \<and> order (Curve [(0, 0), (1, 2), (2, 0)]) = 2
   \<and> order (elevateOrder (Curve [(0, 0), (1, 2), (2, 0)])) = 3
   \<and> valueAt (Curve [(0, 0), (1, 2), (2, 0)]) (1 / 2) = (1, 1)
   \<and> valueAt (elevateOrder (Curve [(0, 0), (1, 2), (2, 0)])) (1 / 2) = (1, 1)"
proof -
  have v: "valueAt (Curve [(0, 0), (1, 2), (2, 0)]) (1 / 2) = (1, 1)"
    by (simp add: valueAt_reference bernstein_reference_def bernstein_polynomial_def upt_conv_Cons
        eval_nat_numeral del: upt_Suc)
  have m: "mul_points (elevateOrderCoeffs (length [(0 :: real, 0 :: real), (1, 2), (2, 0)]))
        [(0, 0), (1, 2), (2, 0)]
      = [(0, 0), (2 / 3, 4 / 3), (4 / 3, 4 / 3), (2, 0)]"
    by (simp add: mul_points_def elevateOrderCoeffs_def mat_def rows_def upt_conv_Cons del: upt_Suc)
  have o: "order (Curve [(0, 0), (1, 2), (2, 0)]) = 2"
    by (simp add: order_def Curve_def)
  have ne: "[(0 :: real, 0 :: real), (1, 2), (2, 0)] \<noteq> []"
    by simp
  note th = elevateOrder_preserves [of "[(0, 0), (1, 2), (2, 0)]" "1 / 2", THEN mp, OF ne]
  from th have "control_points (elevateOrder (Curve [(0, 0), (1, 2), (2, 0)]))
      = [(0, 0), (2 / 3, 4 / 3), (4 / 3, 4 / 3), (2, 0)]"
    unfolding m by blast
  moreover from th have "order (elevateOrder (Curve [(0, 0), (1, 2), (2, 0)])) = 3"
    unfolding o by simp
  moreover from th have "valueAt (elevateOrder (Curve [(0, 0), (1, 2), (2, 0)])) (1 / 2) = (1, 1)"
    unfolding v by blast
  ultimately show ?thesis
    using v o by simp
qed

section \<open>Loops\<close>




lemma Sturm_iterate_zero:
  "uint_of_int (Sturm_interval sturm_chain a b) = 0 \<Longrightarrow>
      Sturm_iterate sturm_chain root_type epsilon (a, b, flag) (intervals, rs) = (intervals, rs)"
  by (simp add: Sturm_iterate_def Let_def)

lemma Sturm_iterate_emit:
  "uint_of_int (Sturm_interval sturm_chain a b) \<noteq> 0 \<Longrightarrow> (a + b) / 2 - a < epsilon \<Longrightarrow>
      Sturm_iterate sturm_chain root_type epsilon (a, b, flag) (intervals, rs)
        = (intervals, rs @ [(a + (a + b) / 2) / 2])"
  by (simp add: Sturm_iterate_def Let_def)

lemma Sturm_iterate_split:
  "uint_of_int (Sturm_interval sturm_chain a b) \<noteq> 0 \<Longrightarrow> \<not> (a + b) / 2 - a < epsilon \<Longrightarrow>
   uint_of_int (Sturm_interval sturm_chain a b) \<noteq> 1 \<or> root_type = AllRoots \<or> flag
             \<or> root_type AND AllRoots \<noteq> 0 \<Longrightarrow>
      Sturm_iterate sturm_chain root_type epsilon (a, b, flag) (intervals, rs)
        = (intervals @ [(a, (a + b) / 2, flag), ((a + b) / 2, b, flag)], rs)"
  by (simp add: Sturm_iterate_def Let_def)

lemma Sturm_iterate_filter:
  "uint_of_int (Sturm_interval sturm_chain a b) = 1 \<Longrightarrow> \<not> (a + b) / 2 - a < epsilon \<Longrightarrow>
   root_type \<noteq> AllRoots \<Longrightarrow> \<not> flag \<Longrightarrow> root_type AND AllRoots = 0 \<Longrightarrow>
      Sturm_iterate sturm_chain root_type epsilon (a, b, flag) (intervals, rs)
        = (if Sturm_filter sturm_chain root_type a b
           then (intervals @ [(a, (a + b) / 2, True), ((a + b) / 2, b, True)], rs)
           else (intervals, rs))"
  by (simp add: Sturm_iterate_def Let_def)















section \<open>Precondition violations\<close>

text \<open>
  Claim C2. \<open>lowerOrder\<close> on a curve with two control points, \<open>manipulateCurvature\<close> on a
  curve whose number of control points is neither 3 nor 4, and \<open>derivative(0)\<close> each raise
  an exception of the logic-error kind, the three exceptions differ, and after a failing
  mutator the curve is the curve before the call (\<open>derivative\<close> is a query and changes no
  control point).
\<close>

theorem precondition_violations:
  "(N c = 2 \<longrightarrow>
      lowerOrder matrix_inverse c = (Inl (logic_error ''Cannot further reduce the order of curve.''), c))
   \<and> (N c \<notin> {3, 4} \<longrightarrow>
      manipulateCurvature c t point
        = (Inl (logic_error ''Only quadratic and cubic curves can be manipulated''), c))
   \<and> derivative_n 0 c = Inl (invalid_argument ''double 'n' cannot be zero.'')
   \<and> is_logic_error (logic_error ''Cannot further reduce the order of curve.'')
   \<and> is_logic_error (logic_error ''Only quadratic and cubic curves can be manipulated'')
   \<and> is_logic_error (invalid_argument ''double 'n' cannot be zero.'')
   \<and> logic_error ''Cannot further reduce the order of curve.''
       \<noteq> logic_error ''Only quadratic and cubic curves can be manipulated''
   \<and> logic_error ''Cannot further reduce the order of curve.''
       \<noteq> invalid_argument ''double 'n' cannot be zero.''
   \<and> logic_error ''Only quadratic and cubic curves can be manipulated''
       \<noteq> invalid_argument ''double 'n' cannot be zero.''"
proof -
  have "N c \<notin> {3, 4} \<Longrightarrow> N c < 3 \<or> N c > 4" by auto
  then show ?thesis
    by (simp add: lowerOrder_def manipulateCurvature_def derivative_n_def)
qed

theorem precondition_violations_witness:
  "lowerOrder adjugate_inverse (Curve [(0, 0), (1, 1)])
     = (Inl (logic_error ''Cannot further reduce the order of curve.''), Curve [(0, 0), (1, 1)])
   \<and> manipulateCurvature (Curve [(0, 0), (1, 1)]) (1 / 2) (1, 0)
     = (Inl (logic_error ''Only quadratic and cubic curves can be manipulated''), Curve [(0, 0), (1, 1)])
   \<and> derivative_n 0 (Curve [(0, 0), (1, 1)]) = Inl (invalid_argument ''double 'n' cannot be zero.'')"
proof -
  have n: "N (Curve [(0, 0), (1, 1)]) = 2" "N (Curve [(0, 0), (1, 1)]) \<notin> {3, 4}"
    by (simp_all add: Curve_def)
  show ?thesis
    using precondition_violations [of "Curve [(0, 0), (1, 1)]" adjugate_inverse "1 / 2" "(1, 0)"] n
    by blast
qed

section \<open>Roots\<close>

lemma bernsteinCoeffs_2: "bernsteinCoeffs 2 = [[1, 0], [- 1, 1]]"
  by (simp add: matrix_eval del: upt_Suc)

lemma derivative_example: "derivative (Curve [(0, 0), (1, 1), (3, 4)]) = Curve [(2, 2), (4, 6)]"
  by (simp add: derivative_def Curve_def pscale_def psub_def upt_conv_Cons del: upt_Suc)

lemma trimZeroes_example: "trimZeroes [2, 2] = [2, 2]" "trimZeroes [2, 4] = [2, 4]"
  by (simp_all add: trimZeroes_def eval_nat_numeral)

lemma extrema_example: "extrema linear_solver (Curve [(0, 0), (1, 1), (3, 4)]) = []"
proof -
  have "mul_points (bernsteinCoeffs (Suc (Suc 0))) [(2, 2), (4, 6)] = [(2, 2), (2, 4)]"
    unfolding numeral_2_eq_2 [symmetric]
    by (simp add: bernsteinCoeffs_2 mul_points_def rows_def upt_conv_Cons del: upt_Suc)
  then show ?thesis
    unfolding extrema_def derivative_example
    by (simp add: roots_def Curve_def Let_def trimZeroes_example linear_solver_def)
qed

lemma trim_index_le: "trim_index v n \<le> n"
  by (induction n) auto





section \<open>Sturm isolation of one interval\<close>

lemma Sturm_loop_pop:
  "Sturm_loop sturm_chain root_type epsilon (intervals @ [(a, b, flag)], rs)
     = Sturm_loop sturm_chain root_type epsilon
         (Sturm_iterate sturm_chain root_type epsilon ((a + b) / 2, b, flag)
           (Sturm_iterate sturm_chain root_type epsilon (a, (a + b) / 2, flag) (intervals, rs)))"
  by (subst Sturm_loop.simps) (simp add: Sturm_round_def Let_def)

lemma Sturm_interval_example: "Sturm_interval [[1, - (19 / 20)], [0, 1]] 0 1 = 1"
  by (simp add: Sturm_interval_def sign_changes_def mat_vec_def descending_powers_def cols_def
      signbit_def upt_conv_Cons del: upt_Suc)

lemma Sturm_count_example: "uint_of_int (Sturm_interval [[1, - (19 / 20)], [0, 1]] 0 1) = 1"
  by (simp add: Sturm_interval_example uint_of_int_def)

lemma Sturm_count_example_zero: "uint_of_int (Sturm_interval [[1, - (19 / 20)], [0, 1]] 0 (1 / 4)) = 0"
  by (simp add: uint_of_int_def Sturm_interval_def sign_changes_def mat_vec_def descending_powers_def cols_def
      signbit_def upt_conv_Cons del: upt_Suc)

text \<open>
  Claim C6, as the code has it. Let \<open>V\<close> be the root count of a processed interval \<open>(a, b)\<close>
  as an unsigned number and \<open>M = (a + b) / 2\<close>. If \<open>V = 0\<close> the interval is discarded. If
  \<open>V \<noteq> 0\<close> and the half width \<open>M - a\<close> is below \<open>epsilon\<close>, one root is appended and nothing is
  pushed. Otherwise \<open>(a, M)\<close> and \<open>(M, b)\<close> are pushed, except that for \<open>V = 1\<close> under a filter
  other than \<open>All\<close> and with the flag unset the filter decides between pushing both halves
  with the flag set and discarding the interval. A popped interval is halved and each
  half is processed in turn.
\<close>

theorem Sturm_iterate_cases:
  "(uint_of_int (Sturm_interval sturm_chain a b) = 0 \<longrightarrow>
      Sturm_iterate sturm_chain root_type epsilon (a, b, flag) (intervals, rs) = (intervals, rs))
   \<and> (uint_of_int (Sturm_interval sturm_chain a b) \<noteq> 0 \<and> (a + b) / 2 - a < epsilon \<longrightarrow>
      (\<exists>r. Sturm_iterate sturm_chain root_type epsilon (a, b, flag) (intervals, rs)
             = (intervals, rs @ [r])))
   \<and> (uint_of_int (Sturm_interval sturm_chain a b) \<noteq> 0 \<and> \<not> (a + b) / 2 - a < epsilon
        \<and> (uint_of_int (Sturm_interval sturm_chain a b) \<noteq> 1 \<or> root_type = AllRoots \<or> flag
             \<or> root_type AND AllRoots \<noteq> 0) \<longrightarrow>
      Sturm_iterate sturm_chain root_type epsilon (a, b, flag) (intervals, rs)
        = (intervals @ [(a, (a + b) / 2, flag), ((a + b) / 2, b, flag)], rs))
   \<and> (uint_of_int (Sturm_interval sturm_chain a b) = 1 \<and> \<not> (a + b) / 2 - a < epsilon
        \<and> root_type \<noteq> AllRoots \<and> \<not> flag \<and> root_type AND AllRoots = 0 \<longrightarrow>
      Sturm_iterate sturm_chain root_type epsilon (a, b, flag) (intervals, rs)
        = (if Sturm_filter sturm_chain root_type a b
           then (intervals @ [(a, (a + b) / 2, True), ((a + b) / 2, b, True)], rs)
           else (intervals, rs)))
   \<and> Sturm_loop sturm_chain root_type epsilon (intervals @ [(a, b, flag)], rs)
     = Sturm_loop sturm_chain root_type epsilon
         (Sturm_iterate sturm_chain root_type epsilon ((a + b) / 2, b, flag)
           (Sturm_iterate sturm_chain root_type epsilon (a, (a + b) / 2, flag) (intervals, rs)))"
  using Sturm_iterate_zero [of sturm_chain a b root_type epsilon flag intervals rs]
    Sturm_iterate_emit [of sturm_chain a b epsilon root_type flag intervals rs]
    Sturm_iterate_split [of sturm_chain a b epsilon root_type flag intervals rs]
    Sturm_iterate_filter [of sturm_chain a b epsilon root_type flag intervals rs]
    Sturm_loop_pop [of sturm_chain root_type epsilon intervals a b flag rs]
  by blast

theorem Sturm_iterate_cases_witness:
  "Sturm_iterate [[1, - (19 / 20)], [0, 1]] AllRoots (1 / 10) (0, 1, False) ([], [])
     = ([(0, 1 / 2, False), (1 / 2, 1, False)], [])
   \<and> Sturm_iterate [[1, - (19 / 20)], [0, 1]] AllRoots (1 / 10) (0, 1 / 4, False) ([], []) = ([], [])
   \<and> (\<exists>r. Sturm_iterate [[1, - (19 / 20)], [0, 1]] AllRoots (3 / 5) (0, 1, False) ([], []) = ([], [r]))
   \<and> Sturm_iterate [[1, - (19 / 20)], [0, 1]] Convex (1 / 10) (0, 1, False) ([], [])
     = ([(0, 1 / 2, True), (1 / 2, 1, True)], [])"
proof -
  have n: "uint_of_int (Sturm_interval [[1, - (19 / 20)], [0, 1]] 0 1) \<noteq> 0"
    by (simp add: Sturm_count_example)
  have big: "\<not> (0 + 1) / 2 - 0 < (1 / 10 :: real)" by simp
  have small: "(0 + 1) / 2 - 0 < (3 / 5 :: real)" by simp
  have conv: "Convex \<noteq> AllRoots" "Convex AND AllRoots = 0"
    by (simp_all add: Convex_def AllRoots_def)
  have filt: "Sturm_filter [[1, - (19 / 20)], [0, 1]] Convex 0 1"
    by (simp add: Sturm_filter_def Convex_def mat_vec_def descending_powers_def cols_def
        upt_conv_Cons del: upt_Suc)
  have "Sturm_iterate [[1, - (19 / 20)], [0, 1]] AllRoots (1 / 10) (0, 1, False) ([], [])
      = ([] @ [(0, (0 + 1) / 2, False), ((0 + 1) / 2, 1, False)], [])"
    using Sturm_iterate_cases [of "[[1, - (19 / 20)], [0, 1]]" 0 1 AllRoots "1 / 10" False "[]" "[]"]
      n big by blast
  moreover have "Sturm_iterate [[1, - (19 / 20)], [0, 1]] AllRoots (1 / 10) (0, 1 / 4, False) ([], [])
      = ([], [])"
    using Sturm_iterate_cases [of "[[1, - (19 / 20)], [0, 1]]" 0 "1 / 4" AllRoots "1 / 10" False "[]" "[]"]
      Sturm_count_example_zero by blast
  moreover have "\<exists>r. Sturm_iterate [[1, - (19 / 20)], [0, 1]] AllRoots (3 / 5) (0, 1, False) ([], [])
      = ([], [] @ [r])"
    using Sturm_iterate_cases [of "[[1, - (19 / 20)], [0, 1]]" 0 1 AllRoots "3 / 5" False "[]" "[]"]
      n small by blast
  moreover have "Sturm_iterate [[1, - (19 / 20)], [0, 1]] Convex (1 / 10) (0, 1, False) ([], [])
      = (if Sturm_filter [[1, - (19 / 20)], [0, 1]] Convex 0 1
         then ([] @ [(0, (0 + 1) / 2, True), ((0 + 1) / 2, 1, True)], [])
         else ([], []))"
    using Sturm_iterate_cases [of "[[1, - (19 / 20)], [0, 1]]" 0 1 Convex "1 / 10" False "[]" "[]"]
      Sturm_count_example big conv by blast
  ultimately show ?thesis
    using filt by simp
qed

text \<open>
  Against the claim as stated, on the chain of \<open>x - 19/20\<close> and the interval \<open>(0, 1)\<close> with
  \<open>V = 1\<close>: for \<open>epsilon = 3/5\<close> the width is not below \<open>epsilon\<close>, yet the interval is not split
  and a root is emitted; for \<open>epsilon = 2\<close> the width is below \<open>epsilon\<close> and the root emitted is
  \<open>1/4\<close>, not the midpoint.
\<close>

theorem Sturm_iterate_counterexample:
  "uint_of_int (Sturm_interval [[1, - (19 / 20)], [0, 1]] 0 1) = 1
   \<and> \<not> (1 - 0 < (3 / 5 :: real))
   \<and> Sturm_iterate [[1, - (19 / 20)], [0, 1]] AllRoots (3 / 5) (0, 1, False) ([], []) = ([], [1 / 4])
   \<and> (1 - 0 < (2 :: real))
   \<and> Sturm_iterate [[1, - (19 / 20)], [0, 1]] AllRoots 2 (0, 1, False) ([], []) = ([], [1 / 4])
   \<and> (1 / 4 :: real) \<noteq> (0 + 1) / 2"
proof -
  have n: "uint_of_int (Sturm_interval [[1, - (19 / 20)], [0, 1]] 0 1) \<noteq> 0"
    by (simp add: Sturm_count_example)
  have "Sturm_iterate [[1, - (19 / 20)], [0, 1]] AllRoots (3 / 5) (0, 1, False) ([], [])
      = ([], [] @ [(0 + (0 + 1) / 2) / 2])"
    by (rule Sturm_iterate_emit [OF n]) simp
  moreover have "Sturm_iterate [[1, - (19 / 20)], [0, 1]] AllRoots 2 (0, 1, False) ([], [])
      = ([], [] @ [(0 + (0 + 1) / 2) / 2])"
    by (rule Sturm_iterate_emit [OF n]) simp
  ultimately show ?thesis
    using Sturm_count_example by simp
qed

section \<open>Self-intersection without extrema\<close>

text \<open>
  Claim C10. When \<open>intersections\<close> is called with the curve itself and the curve has no
  extrema, no pair of sub-curves is seeded and the result is the empty list.
\<close>

theorem self_intersections_no_extrema:
  "extrema realRoots c = [] \<longrightarrow>
     all_pairs (split_at_extrema matrix_inverse (N c) epsilon (control_points c)
                  (sort (extrema realRoots c)) []) = []
   \<and> intersections realRoots matrix_inverse c This epsilon = Some []"
proof
  assume e: "extrema realRoots c = []"
  have "intersections_loop matrix_inverse (N c) epsilon ([], []) = Some []"
    by (subst intersections_loop.simps) simp
  then show "all_pairs (split_at_extrema matrix_inverse (N c) epsilon (control_points c)
                  (sort (extrema realRoots c)) []) = []
   \<and> intersections realRoots matrix_inverse c This epsilon = Some []"
    by (simp add: intersections_def e all_pairs_def)
qed

theorem self_intersections_no_extrema_witness:
  "extrema linear_solver (Curve [(0, 0), (1, 1), (3, 4)]) = []
   \<and> intersections linear_solver adjugate_inverse (Curve [(0, 0), (1, 1), (3, 4)]) This (1 / 1000) = Some []"
  using self_intersections_no_extrema [of linear_solver "Curve [(0, 0), (1, 1), (3, 4)]" adjugate_inverse "1 / 1000"]
    extrema_example by blast

section \<open>Length inversion\<close>











lemma iterateByLength_immediate:
  assumes "\<not> length_to lg c t + s < 0" "\<not> length_to lg c t + s > length_curve lg c" "\<bar>s\<bar> \<le> epsilon"
  shows "iterateByLength lg c t s epsilon = Some t"
proof -
  have "halley_loop lg c (length_to lg c t) s epsilon (t, - s) = Some t"
    using assms(3) by (subst halley_loop.simps) simp
  then show ?thesis
    using assms(1,2) by (simp add: iterateByLength_def Let_def)
qed




section \<open>One round of the intersection loop\<close>

lemma adjugate_bernstein_2: "adjugate_inverse [[1, 0], [- 1, 1]] = [[1, 0], [1, 1]]"
  by (simp add: adjugate_inverse_def)

lemma splittingCoeffsLeft_2: "splittingCoeffsLeft adjugate_inverse 2 (1 / 2) = [[1, 0], [1 / 2, 1 / 2]]"
  unfolding splittingCoeffsLeft_def bernsteinCoeffs_2 adjugate_bernstein_2
  by (simp add: mat_mul_def mat_def rows_def cols_def upt_conv_Cons del: upt_Suc)

lemma splittingCoeffsRight_2: "splittingCoeffsRight adjugate_inverse 2 (1 / 2) = [[1 / 2, 1 / 2], [0, 1]]"
  by (simp add: splittingCoeffsRight_def splittingCoeffsLeft_2 mat_def upt_conv_Cons del: upt_Suc)

lemma split_segment:
  "mul_points (splittingCoeffsLeft adjugate_inverse 2 (1 / 2)) [(x0, y0), (x1, y1)]
     = [(x0, y0), (x0 / 2 + x1 / 2, y0 / 2 + y1 / 2)]"
  "mul_points (splittingCoeffsRight adjugate_inverse 2 (1 / 2)) [(x0, y0), (x1, y1)]
     = [(x0 / 2 + x1 / 2, y0 / 2 + y1 / 2), (x1, y1)]"
  by (simp_all add: splittingCoeffsLeft_2 splittingCoeffsRight_2 mul_points_def rows_def
      upt_conv_Cons del: upt_Suc)

lemma split_segment_Suc:
  "mul_points (splittingCoeffsLeft adjugate_inverse (Suc (Suc 0)) (1 / 2)) [(x0, y0), (x1, y1)]
     = [(x0, y0), (x0 / 2 + x1 / 2, y0 / 2 + y1 / 2)]"
  "mul_points (splittingCoeffsRight adjugate_inverse (Suc (Suc 0)) (1 / 2)) [(x0, y0), (x1, y1)]
     = [(x0 / 2 + x1 / 2, y0 / 2 + y1 / 2), (x1, y1)]"
  using split_segment [of x0 y0 x1 y1] by (simp_all add: numeral_2_eq_2)

lemma norm_pt_x: "norm_pt (x, 0) = \<bar>x\<bar>"
  by (simp add: norm_pt_def)

lemmas segment_eval =
  intersections_step_def Let_def bbox_def minCoeff_def maxCoeff_def intersects_def diagonal_def
  center_def psub_def padd_def pdiv_def norm_pt_x split_segment split_segment_Suc

lemma intersections_loop_pop:
  "intersections_loop matrix_inverse n epsilon (pairs @ [(A, B)], pts)
     = intersections_loop matrix_inverse n epsilon
         (intersections_step matrix_inverse n epsilon (pairs @ [(A, B)], pts))"
  by (subst intersections_loop.simps) simp

lemma intersections_step_discard:
  "\<not> intersects (bbox A) (bbox B) \<Longrightarrow>
     intersections_step matrix_inverse n epsilon (pairs @ [(A, B)], pts) = (pairs, pts)"
  by (simp add: intersections_step_def Let_def)

lemma intersections_step_accept:
  "intersects (bbox A) (bbox B) \<Longrightarrow> norm_pt (diagonal (bbox A)) < epsilon \<Longrightarrow>
   norm_pt (diagonal (bbox B)) < epsilon \<Longrightarrow>
     intersections_step matrix_inverse n epsilon (pairs @ [(A, B)], pts)
       = (pairs, if list_all (\<lambda>p. epsilon \<le> norm_pt (psub p (center (bbox A)))) pts
                 then pts @ [center (bbox A)] else pts)"
  by (simp add: intersections_step_def Let_def not_less)

lemma intersections_step_split_both:
  "intersects (bbox A) (bbox B) \<Longrightarrow> epsilon \<le> norm_pt (diagonal (bbox A)) \<Longrightarrow>
   epsilon \<le> norm_pt (diagonal (bbox B)) \<Longrightarrow>
     intersections_step matrix_inverse n epsilon (pairs @ [(A, B)], pts)
       = (pairs @
           [(mul_points (splittingCoeffsRight matrix_inverse n (1 / 2)) A,
             mul_points (splittingCoeffsRight matrix_inverse (length B) (1 / 2)) B),
            (mul_points (splittingCoeffsLeft matrix_inverse n (1 / 2)) A,
             mul_points (splittingCoeffsRight matrix_inverse (length B) (1 / 2)) B),
            (mul_points (splittingCoeffsRight matrix_inverse n (1 / 2)) A,
             mul_points (splittingCoeffsLeft matrix_inverse (length B) (1 / 2)) B),
            (mul_points (splittingCoeffsLeft matrix_inverse n (1 / 2)) A,
             mul_points (splittingCoeffsLeft matrix_inverse (length B) (1 / 2)) B)], pts)"
  by (simp add: intersections_step_def Let_def not_less [symmetric])

lemma intersections_step_split_b:
  "intersects (bbox A) (bbox B) \<Longrightarrow> norm_pt (diagonal (bbox A)) < epsilon \<Longrightarrow>
   epsilon \<le> norm_pt (diagonal (bbox B)) \<Longrightarrow>
     intersections_step matrix_inverse n epsilon (pairs @ [(A, B)], pts)
       = (pairs @
           [(A, mul_points (splittingCoeffsRight matrix_inverse (length B) (1 / 2)) B),
            (A, mul_points (splittingCoeffsLeft matrix_inverse (length B) (1 / 2)) B)], pts)"
  by (simp add: intersections_step_def Let_def not_less [symmetric])

lemma intersections_step_split_a:
  "intersects (bbox A) (bbox B) \<Longrightarrow> epsilon \<le> norm_pt (diagonal (bbox A)) \<Longrightarrow>
   norm_pt (diagonal (bbox B)) < epsilon \<Longrightarrow>
     intersections_step matrix_inverse n epsilon (pairs @ [(A, B)], pts)
       = (pairs @
           [(mul_points (splittingCoeffsRight matrix_inverse n (1 / 2)) A, B),
            (mul_points (splittingCoeffsLeft matrix_inverse n (1 / 2)) A, B)], pts)"
  by (simp add: intersections_step_def Let_def not_less [symmetric])

lemma bbox_segment_example:
  "bbox [(0, 0), (2, 0)] = \<lparr>box_min = (0, 0), box_max = (2, 0)\<rparr>"
  "bbox [(0, 5), (2, 5)] = \<lparr>box_min = (0, 5), box_max = (2, 5)\<rparr>"
  "bbox [(1, 0), (3 / 2, 0)] = \<lparr>box_min = (1, 0), box_max = (3 / 2, 0)\<rparr>"
  "bbox [(1 / 2, 0), (1, 0)] = \<lparr>box_min = (1 / 2, 0), box_max = (1, 0)\<rparr>"
  by (simp_all add: bbox_def minCoeff_def maxCoeff_def)

text \<open>
  Claim C9, as the code has it. A popped pair \<open>(A, B)\<close> whose boxes do not intersect is
  discarded and adds no point. When both box diagonals have a norm below \<open>epsilon\<close>, the
  centre of the box of \<open>A\<close> is appended to the output if its distance to every point
  accepted before is at least \<open>epsilon\<close>, and is dropped otherwise. In every other case
  each side whose diagonal has a norm of at least \<open>epsilon\<close> is replaced by its right and
  left halves at \<open>1/2\<close>, and every combination is pushed.
\<close>

theorem intersections_step_cases:
  "(\<not> intersects (bbox A) (bbox B) \<longrightarrow>
      intersections_step matrix_inverse n epsilon (pairs @ [(A, B)], pts) = (pairs, pts))
   \<and> (intersects (bbox A) (bbox B) \<and> norm_pt (diagonal (bbox A)) < epsilon
        \<and> norm_pt (diagonal (bbox B)) < epsilon \<longrightarrow>
      intersections_step matrix_inverse n epsilon (pairs @ [(A, B)], pts)
        = (pairs, if list_all (\<lambda>p. epsilon \<le> norm_pt (psub p (center (bbox A)))) pts
                  then pts @ [center (bbox A)] else pts))
   \<and> (intersects (bbox A) (bbox B) \<and> epsilon \<le> norm_pt (diagonal (bbox A))
        \<and> epsilon \<le> norm_pt (diagonal (bbox B)) \<longrightarrow>
      intersections_step matrix_inverse n epsilon (pairs @ [(A, B)], pts)
        = (pairs @
           [(mul_points (splittingCoeffsRight matrix_inverse n (1 / 2)) A,
             mul_points (splittingCoeffsRight matrix_inverse (length B) (1 / 2)) B),
            (mul_points (splittingCoeffsLeft matrix_inverse n (1 / 2)) A,
             mul_points (splittingCoeffsRight matrix_inverse (length B) (1 / 2)) B),
            (mul_points (splittingCoeffsRight matrix_inverse n (1 / 2)) A,
             mul_points (splittingCoeffsLeft matrix_inverse (length B) (1 / 2)) B),
            (mul_points (splittingCoeffsLeft matrix_inverse n (1 / 2)) A,
             mul_points (splittingCoeffsLeft matrix_inverse (length B) (1 / 2)) B)], pts))
   \<and> (intersects (bbox A) (bbox B) \<and> norm_pt (diagonal (bbox A)) < epsilon
        \<and> epsilon \<le> norm_pt (diagonal (bbox B)) \<longrightarrow>
      intersections_step matrix_inverse n epsilon (pairs @ [(A, B)], pts)
        = (pairs @
           [(A, mul_points (splittingCoeffsRight matrix_inverse (length B) (1 / 2)) B),
            (A, mul_points (splittingCoeffsLeft matrix_inverse (length B) (1 / 2)) B)], pts))
   \<and> (intersects (bbox A) (bbox B) \<and> epsilon \<le> norm_pt (diagonal (bbox A))
        \<and> norm_pt (diagonal (bbox B)) < epsilon \<longrightarrow>
      intersections_step matrix_inverse n epsilon (pairs @ [(A, B)], pts)
        = (pairs @
           [(mul_points (splittingCoeffsRight matrix_inverse n (1 / 2)) A, B),
            (mul_points (splittingCoeffsLeft matrix_inverse n (1 / 2)) A, B)], pts))
   \<and> intersections_loop matrix_inverse n epsilon (pairs @ [(A, B)], pts)
     = intersections_loop matrix_inverse n epsilon
         (intersections_step matrix_inverse n epsilon (pairs @ [(A, B)], pts))"
  using intersections_step_discard [of A B matrix_inverse n epsilon pairs pts]
    intersections_step_accept [of A B epsilon matrix_inverse n pairs pts]
    intersections_step_split_both [of A B epsilon matrix_inverse n pairs pts]
    intersections_step_split_b [of A B epsilon matrix_inverse n pairs pts]
    intersections_step_split_a [of A B epsilon matrix_inverse n pairs pts]
    intersections_loop_pop [of matrix_inverse n epsilon pairs A B pts]
  by blast

theorem intersections_step_cases_witness:
  "intersections_step adjugate_inverse 2 1 ([([(0, 0), (2, 0)], [(0, 5), (2, 5)])], []) = ([], [])
   \<and> intersections_step adjugate_inverse 2 1 ([([(1, 0), (3 / 2, 0)], [(1 / 2, 0), (1, 0)])], [(1 / 4, 0)])
       = ([], [(1 / 4, 0), (5 / 4, 0)])
   \<and> intersections_step adjugate_inverse 2 1 ([([(0, 0), (2, 0)], [(0, 0), (2, 0)])], [])
       = ([([(1, 0), (2, 0)], [(1, 0), (2, 0)]), ([(0, 0), (1, 0)], [(1, 0), (2, 0)]),
           ([(1, 0), (2, 0)], [(0, 0), (1, 0)]), ([(0, 0), (1, 0)], [(0, 0), (1, 0)])], [])"
proof -
  have a: "\<not> intersects (bbox [(0, 0), (2, 0)]) (bbox [(0, 5), (2, 5)])"
    by (simp add: bbox_segment_example intersects_def)
  have b: "intersects (bbox [(1, 0), (3 / 2, 0)]) (bbox [(1 / 2, 0), (1, 0)])"
    "norm_pt (diagonal (bbox [(1, 0), (3 / 2, 0)])) < 1"
    "norm_pt (diagonal (bbox [(1 / 2, 0), (1, 0)])) < 1"
    "center (bbox [(1, 0), (3 / 2, 0)]) = (5 / 4, 0)"
    "list_all (\<lambda>p. 1 \<le> norm_pt (psub p (5 / 4, 0))) [(1 / 4, 0)]"
    by (simp_all add: bbox_segment_example intersects_def diagonal_def center_def psub_def padd_def
        pdiv_def norm_pt_x)
  have c: "intersects (bbox [(0, 0), (2, 0)]) (bbox [(0, 0), (2, 0)])"
    "1 \<le> norm_pt (diagonal (bbox [(0, 0), (2, 0)]))"
    by (simp_all add: bbox_segment_example intersects_def diagonal_def psub_def norm_pt_x)
  have "intersections_step adjugate_inverse 2 1 ([] @ [([(0, 0), (2, 0)], [(0, 5), (2, 5)])], []) = ([], [])"
    using intersections_step_cases [of "[(0, 0), (2, 0)]" "[(0, 5), (2, 5)]" adjugate_inverse 2 1 "[]" "[]"] a
    by blast
  moreover have "intersections_step adjugate_inverse 2 1
       ([] @ [([(1, 0), (3 / 2, 0)], [(1 / 2, 0), (1, 0)])], [(1 / 4, 0)])
     = ([], if list_all (\<lambda>p. 1 \<le> norm_pt (psub p (center (bbox [(1, 0), (3 / 2, 0)])))) [(1 / 4, 0)]
            then [(1 / 4, 0)] @ [center (bbox [(1, 0), (3 / 2, 0)])] else [(1 / 4, 0)])"
    using intersections_step_cases [of "[(1, 0), (3 / 2, 0)]" "[(1 / 2, 0), (1, 0)]" adjugate_inverse 2 1
        "[]" "[(1 / 4, 0)]"] b(1-3)
    by blast
  moreover have "intersections_step adjugate_inverse 2 1 ([] @ [([(0, 0), (2, 0)], [(0, 0), (2, 0)])], [])
     = ([] @
           [(mul_points (splittingCoeffsRight adjugate_inverse 2 (1 / 2)) [(0, 0), (2, 0)],
             mul_points (splittingCoeffsRight adjugate_inverse (length [(0 :: real, 0 :: real), (2, 0)]) (1 / 2)) [(0, 0), (2, 0)]),
            (mul_points (splittingCoeffsLeft adjugate_inverse 2 (1 / 2)) [(0, 0), (2, 0)],
             mul_points (splittingCoeffsRight adjugate_inverse (length [(0 :: real, 0 :: real), (2, 0)]) (1 / 2)) [(0, 0), (2, 0)]),
            (mul_points (splittingCoeffsRight adjugate_inverse 2 (1 / 2)) [(0, 0), (2, 0)],
             mul_points (splittingCoeffsLeft adjugate_inverse (length [(0 :: real, 0 :: real), (2, 0)]) (1 / 2)) [(0, 0), (2, 0)]),
            (mul_points (splittingCoeffsLeft adjugate_inverse 2 (1 / 2)) [(0, 0), (2, 0)],
             mul_points (splittingCoeffsLeft adjugate_inverse (length [(0 :: real, 0 :: real), (2, 0)]) (1 / 2)) [(0, 0), (2, 0)])], [])"
    using intersections_step_cases [of "[(0, 0), (2, 0)]" "[(0, 0), (2, 0)]" adjugate_inverse 2 1 "[]" "[]"] c
    by blast
  ultimately show ?thesis
    by (simp add: b(4) split_segment split_segment_Suc psub_def norm_pt_x)
qed

text \<open>
  Against the claim as stated: two coincident segments from \<open>(0, 0)\<close> to \<open>(2, 0)\<close>, given as
  different objects, with \<open>epsilon = 1\<close>. The second point of the result is accepted at the
  distance 1 from the first, which does not exceed \<open>epsilon\<close>.
\<close>

theorem intersections_counterexample:
  "intersections linear_solver adjugate_inverse (Curve [(0, 0), (2, 0)])
     (Other (Curve [(0, 0), (2, 0)])) 1 = Some [(1 / 4, 0), (5 / 4, 0)]
   \<and> norm_pt (psub (1 / 4, 0) (5 / 4, 0)) = 1
   \<and> \<not> norm_pt (psub (1 / 4, 0) (5 / 4, 0)) > 1"
proof -
  have "intersections linear_solver adjugate_inverse (Curve [(0, 0), (2, 0)])
     (Other (Curve [(0, 0), (2, 0)])) 1 = Some [(1 / 4, 0), (5 / 4, 0)]"
    by (simp add: intersections_def Curve_def intersections_loop.simps segment_eval)
  then show ?thesis
    by (simp add: psub_def norm_pt_x)
qed

section \<open>Subdivision at one half\<close>














































section \<open>Termination of the iterations\<close>











end
